theory Spec2Isabelle
  imports Main "HOL-Library.Sublist" "HOL-Library.AList"
begin

section \<open>Python values\<close>

text \<open>
  The module handles the responses of the servicediscovery client as plain Python
  values: dictionaries with string keys, lists, strings, integers, booleans, None and
  datetime objects. A dictionary is an association list (the first entry of a key is
  the one looked up and the one replaced on assignment). A datetime object is kept as an
  opaque value; its payload only tells two instants apart. Values are trees: no object
  is shared between two places of a response.
\<close>

datatype pyval =
    PNone
  | PBool bool
  | PInt int
  | PStr string
  | PDatetime string
  | PList "pyval list"
  | PDict "(string \<times> pyval) list"

type_synonym pydict = "(string \<times> pyval) list"

text \<open>Exceptions carry the text that \<open>str(e)\<close> renders.\<close>

datatype exn =
    ClientError string
  | WaiterError string
  | KeyError string
  | TypeError string
  | IndexError string
  | AttributeError string
  | UnboundLocalError string

fun str_exn :: "exn \<Rightarrow> string" where
  "str_exn (ClientError m) = m"
| "str_exn (WaiterError m) = m"
| "str_exn (KeyError k) = [CHR 0x27] @ k @ [CHR 0x27]"
| "str_exn (TypeError m) = m"
| "str_exn (IndexError m) = m"
| "str_exn (AttributeError m) = m"
| "str_exn (UnboundLocalError m) = m"

text \<open>Truth value of a Python value (\<open>if x:\<close>, \<open>not x\<close>).\<close>

fun truthy :: "pyval \<Rightarrow> bool" where
  "truthy PNone = False"
| "truthy (PBool b) = b"
| "truthy (PInt i) = (i \<noteq> 0)"
| "truthy (PStr s) = (s \<noteq> [])"
| "truthy (PDatetime t) = True"
| "truthy (PList xs) = (xs \<noteq> [])"
| "truthy (PDict d) = (d \<noteq> [])"

text \<open>An optional string parameter as a Python value: None when it was not given.\<close>

fun opt_val :: "string option \<Rightarrow> pyval" where
  "opt_val None = PNone"
| "opt_val (Some s) = PStr s"

text \<open>\<open>x[k]\<close> for a string key \<open>k\<close>.\<close>

fun getitem :: "pyval \<Rightarrow> string \<Rightarrow> exn + pyval" where
  "getitem (PDict d) k = (case map_of d k of None \<Rightarrow> Inl (KeyError k) | Some v \<Rightarrow> Inr v)"
| "getitem (PList xs) k = Inl (TypeError ''list indices must be integers or slices, not str'')"
| "getitem (PStr s) k = Inl (TypeError ''string indices must be integers'')"
| "getitem v k = Inl (TypeError ''object is not subscriptable'')"

text \<open>\<open>x[k] = v\<close> for a string key \<open>k\<close>: the mutated container.\<close>

fun setitem :: "pyval \<Rightarrow> string \<Rightarrow> pyval \<Rightarrow> exn + pyval" where
  "setitem (PDict d) k v = Inr (PDict (AList.update k v d))"
| "setitem (PList xs) k v = Inl (TypeError ''list indices must be integers or slices, not str'')"
| "setitem x k v = Inl (TypeError ''object does not support item assignment'')"

text \<open>\<open>k in x\<close> for a string \<open>k\<close>: key of a dictionary, element of a list, substring of a string.\<close>

fun contains :: "string \<Rightarrow> pyval \<Rightarrow> exn + bool" where
  "contains k (PDict d) = Inr (map_of d k \<noteq> None)"
| "contains k (PList xs) = Inr (PStr k \<in> set xs)"
| "contains k (PStr s) = Inr (sublist k s)"
| "contains k v = Inl (TypeError ''argument is not iterable'')"

text \<open>The items a \<open>for\<close> loop over \<open>x\<close> visits.\<close>

fun py_iter :: "pyval \<Rightarrow> exn + pyval list" where
  "py_iter (PList xs) = Inr xs"
| "py_iter (PDict d) = Inr (map (\<lambda>kv. PStr (fst kv)) d)"
| "py_iter (PStr s) = Inr (map (\<lambda>c. PStr [c]) s)"
| "py_iter v = Inl (TypeError ''object is not iterable'')"

text \<open>Sequencing of steps that may raise.\<close>

definition bind_e :: "exn + 'a \<Rightarrow> ('a \<Rightarrow> exn + 'b) \<Rightarrow> exn + 'b" where
  "bind_e r f = (case r of Inl e \<Rightarrow> Inl e | Inr a \<Rightarrow> f a)"

fun map_e :: "('a \<Rightarrow> exn + 'b) \<Rightarrow> 'a list \<Rightarrow> exn + 'b list" where
  "map_e f [] = Inr []"
| "map_e f (x # xs) = bind_e (f x) (\<lambda>y. bind_e (map_e f xs) (\<lambda>ys. Inr (y # ys)))"

section \<open>The remote client and the calls made to it\<close>

text \<open>
  The module reaches the control plane only through the client object \<open>self.sd\<close>.
  A client is any family of operations over a remote state \<open>'s\<close>: each takes its
  keyword argument and the state, and either raises or returns a response dictionary,
  together with the state it leaves behind. Every call the module makes is recorded.
\<close>

datatype call =
    ListNamespaces pyval
  | GetNamespace pyval
  | CreatePublicDnsNamespace pydict
  | CreatePrivateDnsNamespace pydict
  | GetOperation pyval
  | DeleteNamespace pyval
  | Sleep nat

record 's client =
  sd_list_namespaces :: "pyval \<Rightarrow> 's \<Rightarrow> (exn + pydict) \<times> 's"
  sd_get_namespace :: "pyval \<Rightarrow> 's \<Rightarrow> (exn + pydict) \<times> 's"
  sd_create_public_dns_namespace :: "pydict \<Rightarrow> 's \<Rightarrow> (exn + pydict) \<times> 's"
  sd_create_private_dns_namespace :: "pydict \<Rightarrow> 's \<Rightarrow> (exn + pydict) \<times> 's"
  sd_get_operation :: "pyval \<Rightarrow> 's \<Rightarrow> (exn + pydict) \<times> 's"
  sd_delete_namespace :: "pyval \<Rightarrow> 's \<Rightarrow> (exn + pydict) \<times> 's"

text \<open>
  A step of the module: from the remote state to a result or an exception, the new
  remote state and the calls issued, in order.
\<close>

type_synonym ('s, 'a) io = "'s \<Rightarrow> (exn + 'a) \<times> 's \<times> call list"

definition io_return :: "'a \<Rightarrow> ('s, 'a) io" where
  "io_return x s = (Inr x, s, [])"

definition io_lift :: "exn + 'a \<Rightarrow> ('s, 'a) io" where
  "io_lift r s = (r, s, [])"

definition io_bind :: "('s, 'a) io \<Rightarrow> ('a \<Rightarrow> ('s, 'b) io) \<Rightarrow> ('s, 'b) io" where
  "io_bind m f s =
     (case m s of
        (Inl e, s1, cs) \<Rightarrow> (Inl e, s1, cs)
      | (Inr a, s1, cs) \<Rightarrow> (case f a s1 of (r, s2, cs2) \<Rightarrow> (r, s2, cs @ cs2)))"

definition sd_call :: "('s \<Rightarrow> (exn + pydict) \<times> 's) \<Rightarrow> call \<Rightarrow> ('s, pydict) io" where
  "sd_call f c s = (case f s of (r, s1) \<Rightarrow> (r, s1, [c]))"

definition sleep :: "nat \<Rightarrow> ('s, unit) io" where
  "sleep n s = (Inr (), s, [Sleep n])"

section \<open>Argument checking\<close>

text \<open>
  The arguments as the caller gives them: every one may be missing. The argument
  specification of \<open>main\<close> declares \<open>state\<close> and \<open>name\<close> required, the choices of
  \<open>state\<close> and \<open>type\<close>, and the default \<open>True\<close> of \<open>wait\<close>.
\<close>

record args =
  a_state :: "string option"
  a_type :: "string option"
  a_name :: "string option"
  a_creator_request_id :: "string option"
  a_description :: "string option"
  a_wait :: "bool option"
  a_vpc_id :: "string option"

text \<open>\<open>module.params\<close> once the arguments have passed the checks.\<close>

record params =
  p_state :: string
  p_type :: "string option"
  p_name :: string
  p_creator_request_id :: "string option"
  p_description :: "string option"
  p_wait :: bool
  p_vpc_id :: "string option"

text \<open>The string-valued arguments by name, as the conditional requirements read them.\<close>

definition arg_get :: "args \<Rightarrow> string \<Rightarrow> string option" where
  "arg_get a k =
     (if k = ''state'' then a_state a
      else if k = ''type'' then a_type a
      else if k = ''name'' then a_name a
      else if k = ''creator_request_id'' then a_creator_request_id a
      else if k = ''description'' then a_description a
      else if k = ''vpc_id'' then a_vpc_id a
      else None)"

text \<open>The \<open>required_if\<close> table of \<open>main\<close>, as written there.\<close>

definition required_if :: "(string \<times> string \<times> string list) list" where
  "required_if = [(''state'', ''present'', [''type'']), (''type'', ''private'', [''vpc_id''])]"

definition state_choices :: "string list" where
  "state_choices = [''present'', ''absent'']"

definition type_choices :: "string list" where
  "type_choices = [''DNS_PRIVATE'', ''DNS_PUBLIC'']"

text \<open>
  Modelled from the spec: the argument checker of AnsibleAWSModule is not in src/. A
  conditional requirement \<open>(key, value, names)\<close> applies when the argument \<open>key\<close>
  equals \<open>value\<close>, and then rejects the invocation when one of \<open>names\<close> is missing
  (the spec: a required combination of inputs missing is a validation error). The
  result is the first message of a requirement that fails, if any.
\<close>

fun check_required_if :: "(string \<times> string \<times> string list) list \<Rightarrow> args \<Rightarrow> string option" where
  "check_required_if [] a = None"
| "check_required_if ((key, val, requirements) # rest) a =
     (let missing = (if arg_get a key = Some val
                     then filter (\<lambda>r. arg_get a r = None) requirements else [])
      in if missing \<noteq> []
         then Some (key @ '' is '' @ val @ '' but all of the following are missing: ''
                    @ concat (map (\<lambda>m. m @ '' '') missing))
         else check_required_if rest a)"

text \<open>
  Modelled from the spec: the constructor of AnsibleAWSModule is not in src/. It checks
  the arguments against the specification given in \<open>main\<close> (required arguments, choices,
  conditional requirements) before any client exists, fills in the default of \<open>wait\<close>,
  and fails the invocation with a message when a check fails.
\<close>

definition AnsibleAWSModule :: "args \<Rightarrow> string + params" where
  "AnsibleAWSModule a =
     (case a_state a of
        None \<Rightarrow> Inl ''missing required arguments: state''
      | Some st \<Rightarrow>
     (case a_name a of
        None \<Rightarrow> Inl ''missing required arguments: name''
      | Some nm \<Rightarrow>
        if st \<notin> set state_choices
        then Inl (''value of state must be one of: present, absent, got: '' @ st)
        else if (case a_type a of None \<Rightarrow> False | Some t \<Rightarrow> t \<notin> set type_choices)
        then Inl ''value of type must be one of: DNS_PRIVATE, DNS_PUBLIC''
        else (case check_required_if required_if a of
                Some msg \<Rightarrow> Inl msg
              | None \<Rightarrow>
                  Inr \<lparr> p_state = st, p_type = a_type a, p_name = nm,
                        p_creator_request_id = a_creator_request_id a,
                        p_description = a_description a,
                        p_wait = (case a_wait a of None \<Rightarrow> True | Some b \<Rightarrow> b),
                        p_vpc_id = a_vpc_id a \<rparr>)))"

section \<open>The waiter\<close>

text \<open>
  \<open>sd_waiter_config\<close>: the waiter NamespaceCreated polls GetOperation with delay 5,
  at most 10 attempts, and accepts a response whose path \<open>Operation.Status\<close> is
  the string SUCCESS.
\<close>

definition waiter_delay :: nat where
  "waiter_delay = 5"

definition waiter_maxAttempts :: nat where
  "waiter_maxAttempts = 10"

text \<open>The path matcher: a missing step of the path gives None.\<close>

definition path_get :: "pyval \<Rightarrow> string \<Rightarrow> pyval" where
  "path_get v k = (case v of PDict d \<Rightarrow> (case map_of d k of None \<Rightarrow> PNone | Some x \<Rightarrow> x) | _ \<Rightarrow> PNone)"

definition acceptor_success :: "pydict \<Rightarrow> bool" where
  "acceptor_success response =
     (path_get (path_get (PDict response) ''Operation'') ''Status'' = PStr ''SUCCESS'')"

text \<open>
  The loop of the waiter, with the number of attempts left. Each attempt calls the
  operation; an exception of the call propagates; an accepted response ends the wait; a
  response carrying an Error, or the last attempt not accepted, raises; otherwise the
  waiter sleeps for the delay and tries again.
\<close>

fun waiter_wait :: "'s client \<Rightarrow> pyval \<Rightarrow> nat \<Rightarrow> ('s, unit) io" where
  "waiter_wait c operation 0 = io_lift (Inl (WaiterError ''Max attempts exceeded''))"
| "waiter_wait c operation (Suc n) =
     io_bind (sd_call (sd_get_operation c operation) (GetOperation operation)) (\<lambda>response.
       if acceptor_success response then io_return ()
       else if map_of response ''Error'' \<noteq> None
       then io_lift (Inl (WaiterError ''An error occurred''))
       else if n = 0 then io_lift (Inl (WaiterError ''Max attempts exceeded''))
       else io_bind (sleep waiter_delay) (\<lambda>u. waiter_wait c operation n))"

section \<open>ServiceDiscoveryNamespace\<close>

text \<open>
  Modelled from the spec: ansible_dict_to_boto3_filter_list is not in src/. For the
  dictionary with the one key TYPE it gives the list of one filter of that name whose
  values are the given type (the spec: the query is filtered by type).
\<close>

definition ansible_dict_to_boto3_filter_list :: "(string \<times> string) list \<Rightarrow> pyval" where
  "ansible_dict_to_boto3_filter_list fs =
     PList (map (\<lambda>kv. PDict [(''Name'', PStr (fst kv)), (''Values'', PList [PStr (snd kv)])]) fs)"

definition get_operation :: "'s client \<Rightarrow> pyval \<Rightarrow> ('s, pydict) io" where
  "get_operation c operation_id = sd_call (sd_get_operation c operation_id) (GetOperation operation_id)"

definition list_filters :: "string option \<Rightarrow> pyval" where
  "list_filters type =
     (if truthy (opt_val type)
      then ansible_dict_to_boto3_filter_list [(''TYPE'', (case type of Some t \<Rightarrow> t | None \<Rightarrow> []))]
      else PList [])"

definition list_namespaces :: "'s client \<Rightarrow> string option \<Rightarrow> ('s, pydict) io" where
  "list_namespaces c type =
     sd_call (sd_list_namespaces c (list_filters type)) (ListNamespaces (list_filters type))"

text \<open>The loop of \<open>get_namespaces_by_name\<close>, with the list built so far.\<close>

fun matching_namespaces :: "string \<Rightarrow> pyval list \<Rightarrow> pyval list \<Rightarrow> exn + pyval list" where
  "matching_namespaces namespace_name acc [] = Inr acc"
| "matching_namespaces namespace_name acc (ns # rest) =
     bind_e (getitem ns ''Name'') (\<lambda>v.
       matching_namespaces namespace_name
         (if v = PStr namespace_name then acc @ [ns] else acc) rest)"

text \<open>The result is None for an empty response, the list of matches otherwise.\<close>

definition get_namespaces_by_name :: "'s client \<Rightarrow> string \<Rightarrow> string option \<Rightarrow> ('s, pyval list option) io" where
  "get_namespaces_by_name c namespace_name type =
     io_bind (list_namespaces c type) (\<lambda>namespaces.
       if \<not> truthy (PDict namespaces) then io_return None
       else io_lift
         (bind_e (getitem (PDict namespaces) ''Namespaces'') (\<lambda>nss.
          bind_e (py_iter nss) (\<lambda>items.
          bind_e (matching_namespaces namespace_name [] items) (\<lambda>ms. Inr (Some ms))))))"

text \<open>\<open>if k in d: d[k] = str(d[k])\<close>, with \<open>str\<close> the conversion of Python.\<close>

definition stringify :: "(pyval \<Rightarrow> string) \<Rightarrow> string \<Rightarrow> pyval \<Rightarrow> exn + pyval" where
  "stringify str k d =
     bind_e (contains k d) (\<lambda>present.
       if present then bind_e (getitem d k) (\<lambda>v. setitem d k (PStr (str v)))
       else Inr d)"

text \<open>
  \<open>for d in xs: ...\<close> where the body assigns to entries of \<open>d\<close>: the items of a
  list are mutated in place; the items of any other iterable are strings made for the
  loop, which the body leaves as they are or fails on.
\<close>

definition for_each :: "(pyval \<Rightarrow> exn + pyval) \<Rightarrow> pyval \<Rightarrow> exn + pyval" where
  "for_each body xs =
     bind_e (py_iter xs) (\<lambda>items.
     bind_e (map_e body items) (\<lambda>items'.
       Inr (case xs of PList ys \<Rightarrow> PList items' | _ \<Rightarrow> xs)))"

definition jsonize :: "(pyval \<Rightarrow> string) \<Rightarrow> pyval \<Rightarrow> exn + pyval" where
  "jsonize str service =
     bind_e (stringify str ''createdAt'' service) (\<lambda>s1.
     bind_e (contains ''deployments'' s1) (\<lambda>has_d.
     bind_e (if has_d
             then bind_e (getitem s1 ''deployments'') (\<lambda>ds.
                  bind_e (for_each (\<lambda>d. bind_e (stringify str ''createdAt'' d)
                                              (stringify str ''updatedAt'')) ds) (\<lambda>ds'.
                    setitem s1 ''deployments'' ds'))
             else Inr s1) (\<lambda>s2.
     bind_e (contains ''events'' s2) (\<lambda>has_e.
       if has_e
       then bind_e (getitem s2 ''events'') (\<lambda>es.
            bind_e (for_each (stringify str ''createdAt'') es) (\<lambda>es'.
              setitem s2 ''events'' es'))
       else Inr s2))))"

definition get_namespace :: "'s client \<Rightarrow> (pyval \<Rightarrow> string) \<Rightarrow> pyval \<Rightarrow> ('s, pyval) io" where
  "get_namespace c str namespace_id =
     io_bind (sd_call (sd_get_namespace c namespace_id) (GetNamespace namespace_id)) (\<lambda>response.
     io_bind (io_lift (getitem (PDict response) ''Namespace'')) (\<lambda>namespace.
       if \<not> truthy namespace then io_return PNone
       else io_lift (jsonize str namespace)))"

text \<open>\<open>operationResponse['Operation']['Targets']['NAMESPACE']\<close>.\<close>

definition namespace_target :: "pydict \<Rightarrow> exn + pyval" where
  "namespace_target operationResponse =
     bind_e (getitem (PDict operationResponse) ''Operation'') (\<lambda>op.
     bind_e (getitem op ''Targets'') (\<lambda>ts. getitem ts ''NAMESPACE''))"

text \<open>
  The block both create functions run when \<open>wait\<close> is set: wait for the operation,
  read it once more, and fetch its target namespace.
\<close>

definition wait_created :: "'s client \<Rightarrow> pyval \<Rightarrow> ('s, pyval) io" where
  "wait_created c operation =
     io_bind (waiter_wait c operation waiter_maxAttempts) (\<lambda>u.
     io_bind (sd_call (sd_get_operation c operation) (GetOperation operation)) (\<lambda>operationResponse.
     io_bind (io_lift (namespace_target operationResponse)) (\<lambda>namespace_id.
     io_bind (sd_call (sd_get_namespace c namespace_id) (GetNamespace namespace_id)) (\<lambda>r.
       io_lift (getitem (PDict r) ''Namespace'')))))"

text \<open>Creator request id and description are optional: only included if given.\<close>

definition optional_params :: "string option \<Rightarrow> string option \<Rightarrow> pydict" where
  "optional_params description creator_request_id =
     (if truthy (opt_val creator_request_id)
      then [(''CreatorRequestId'', opt_val creator_request_id)] else [])
     @ (if truthy (opt_val description) then [(''description'', opt_val description)] else [])"

definition public_params :: "string \<Rightarrow> string option \<Rightarrow> string option \<Rightarrow> pydict" where
  "public_params name description creator_request_id =
     [(''Name'', PStr name)] @ optional_params description creator_request_id"

definition private_params :: "string \<Rightarrow> string option \<Rightarrow> string option \<Rightarrow> string option \<Rightarrow> pydict" where
  "private_params name description creator_request_id vpc_id =
     [(''Name'', PStr name), (''Vpc'', opt_val vpc_id)] @ optional_params description creator_request_id"

definition create_public_dns_namespace ::
  "'s client \<Rightarrow> string \<Rightarrow> string option \<Rightarrow> string option \<Rightarrow> bool \<Rightarrow> ('s, pyval) io" where
  "create_public_dns_namespace c name description creator_request_id wait =
     (let params = public_params name description creator_request_id in
      io_bind (sd_call (sd_create_public_dns_namespace c params) (CreatePublicDnsNamespace params)) (\<lambda>response.
      io_bind (io_lift (getitem (PDict response) ''OperationId'')) (\<lambda>operation.
        if wait then wait_created c operation
        else io_return (PDict response))))"

definition create_private_dns_namespace ::
  "'s client \<Rightarrow> string \<Rightarrow> string option \<Rightarrow> string option \<Rightarrow> string option \<Rightarrow> bool \<Rightarrow> ('s, pyval) io" where
  "create_private_dns_namespace c name description creator_request_id vpc_id wait =
     (let params = private_params name description creator_request_id vpc_id in
      io_bind (sd_call (sd_create_private_dns_namespace c params) (CreatePrivateDnsNamespace params)) (\<lambda>response.
      io_bind (io_lift (getitem (PDict response) ''OperationId'')) (\<lambda>operation.
        if wait then wait_created c operation
        else io_return (PDict response))))"

text \<open>With a type that is neither of the two, \<open>namespace\<close> is unbound at the return.\<close>

definition create_namespace ::
  "'s client \<Rightarrow> (pyval \<Rightarrow> string) \<Rightarrow> string \<Rightarrow> string option \<Rightarrow> string option \<Rightarrow> string option
     \<Rightarrow> string option \<Rightarrow> bool \<Rightarrow> ('s, pyval) io" where
  "create_namespace c str name type description creator_request_id vpc_id wait =
     (if type = Some ''DNS_PRIVATE''
      then io_bind (create_private_dns_namespace c name description creator_request_id vpc_id wait)
             (\<lambda>namespace. io_lift (jsonize str namespace))
      else if type = Some ''DNS_PUBLIC''
      then io_bind (create_public_dns_namespace c name description creator_request_id wait)
             (\<lambda>namespace. io_lift (jsonize str namespace))
      else io_lift (Inl (UnboundLocalError
             ''local variable namespace referenced before assignment'')))"

definition delete_namespace :: "'s client \<Rightarrow> pyval \<Rightarrow> ('s, pydict) io" where
  "delete_namespace c ident = sd_call (sd_delete_namespace c ident) (DeleteNamespace ident)"

section \<open>main\<close>

text \<open>
  How an invocation ends: \<open>exit_json\<close> with its keyword arguments, \<open>fail_json\<close>
  with its message, an exception nobody catches, or the end of \<open>main\<close> without
  either.
\<close>

datatype outcome =
    ExitJson pydict
  | FailJson string
  | Uncaught exn
  | NoExit

text \<open>
  \<open>camel_dict_to_snake_dict\<close> is not in src/: the renaming of the keys of a
  dictionary is a parameter \<open>snake\<close>. On anything but a dictionary the call raises,
  for want of the method \<open>items\<close>.
\<close>

definition camel_dict_to_snake_dict :: "(pydict \<Rightarrow> pydict) \<Rightarrow> pyval \<Rightarrow> exn + pyval" where
  "camel_dict_to_snake_dict snake v =
     (case v of PDict d \<Rightarrow> Inr (PDict (snake d))
      | _ \<Rightarrow> Inl (AttributeError ''object has no attribute items''))"

definition py_len :: "pyval list option \<Rightarrow> exn + nat" where
  "py_len existing =
     (case existing of None \<Rightarrow> Inl (TypeError ''object of type NoneType has no len()'')
      | Some xs \<Rightarrow> Inr (length xs))"

text \<open>\<open>existing[0]\<close>.\<close>

definition first_of :: "pyval list option \<Rightarrow> exn + pyval" where
  "first_of existing =
     (case existing of None \<Rightarrow> Inl (TypeError ''NoneType object is not subscriptable'')
      | Some [] \<Rightarrow> Inl (IndexError ''list index out of range'')
      | Some (x # xs) \<Rightarrow> Inr x)"

text \<open>
  The body of the \<open>try\<close> of the present branch: \<open>Some\<close> of the outcome when it
  reaches an \<open>exit_json\<close>, \<open>None\<close> when it falls through.
\<close>

definition try_present ::
  "'s client \<Rightarrow> (pyval \<Rightarrow> string) \<Rightarrow> (pydict \<Rightarrow> pydict) \<Rightarrow> params \<Rightarrow> ('s, outcome option) io" where
  "try_present c str snake p =
     io_bind (get_namespaces_by_name c (p_name p) (p_type p)) (\<lambda>existing.
     io_bind (io_lift (py_len existing)) (\<lambda>n.
       if n = 1
       then io_bind (io_lift (bind_e (first_of existing) (\<lambda>e0. getitem e0 ''Id''))) (\<lambda>ident.
            io_bind (get_namespace c str ident) (\<lambda>namespace.
            io_bind (io_lift (camel_dict_to_snake_dict snake namespace)) (\<lambda>out.
              io_return (Some (ExitJson [(''changed'', PBool False), (''namespace'', out)])))))
       else if n = 0
       then io_bind (create_namespace c str (p_name p) (p_type p) (p_description p)
                       (p_creator_request_id p) (p_vpc_id p) (p_wait p)) (\<lambda>namespace.
            io_bind (io_lift (camel_dict_to_snake_dict snake namespace)) (\<lambda>out.
              io_return (Some (ExitJson [(''changed'', PBool True), (''namespace'', out)]))))
       else io_return None))"

definition try_absent :: "'s client \<Rightarrow> params \<Rightarrow> ('s, outcome) io" where
  "try_absent c p =
     io_bind (get_namespaces_by_name c (p_name p) (p_type p)) (\<lambda>existing.
     io_bind (io_lift (bind_e (first_of existing) (\<lambda>e0. getitem e0 ''Id''))) (\<lambda>ident.
     io_bind (delete_namespace c ident) (\<lambda>response.
       io_return (ExitJson [(''changed'', PBool True)]))))"

definition fail_msg :: "string \<Rightarrow> exn \<Rightarrow> string" where
  "fail_msg name e = ''Exception '' @ [CHR 0x27] @ name @ [CHR 0x27] @ '': '' @ str_exn e"

definition main ::
  "'s client \<Rightarrow> (pyval \<Rightarrow> string) \<Rightarrow> (pydict \<Rightarrow> pydict) \<Rightarrow> args \<Rightarrow> 's \<Rightarrow> outcome \<times> 's \<times> call list" where
  "main c str snake a s =
     (case AnsibleAWSModule a of
        Inl msg \<Rightarrow> (FailJson msg, s, [])
      | Inr p \<Rightarrow>
          if p_state p = ''present''
          then (case try_present c str snake p s of
                  (Inl e, s1, cs) \<Rightarrow> (FailJson (fail_msg (p_name p) e), s1, cs)
                | (Inr (Some out), s1, cs) \<Rightarrow> (out, s1, cs)
                | (Inr None, s1, cs) \<Rightarrow>
                    (Uncaught (TypeError ''exit_json() argument after ** must be a mapping, not list''),
                     s1, cs))
          else if p_state p = ''absent''
          then (case try_absent c p s of
                  (Inl e, s1, cs) \<Rightarrow> (FailJson (fail_msg (p_name p) e), s1, cs)
                | (Inr out, s1, cs) \<Rightarrow> (out, s1, cs))
          else (NoExit, s, []))"

section \<open>What the claims speak of\<close>

fun is_create :: "call \<Rightarrow> bool" where
  "is_create (CreatePublicDnsNamespace ps) = True"
| "is_create (CreatePrivateDnsNamespace ps) = True"
| "is_create c = False"

fun is_delete :: "call \<Rightarrow> bool" where
  "is_delete (DeleteNamespace i) = True"
| "is_delete c = False"

text \<open>The summaries of a list response whose name is the one looked for.\<close>

definition named :: "string \<Rightarrow> pydict list \<Rightarrow> pydict list" where
  "named n nss = filter (\<lambda>d. map_of d ''Name'' = Some (PStr n)) nss"

text \<open>The create call that fits the parameters of an invocation.\<close>

definition create_call :: "params \<Rightarrow> call" where
  "create_call p =
     (if p_type p = Some ''DNS_PRIVATE''
      then CreatePrivateDnsNamespace
             (private_params (p_name p) (p_description p) (p_creator_request_id p) (p_vpc_id p))
      else CreatePublicDnsNamespace
             (public_params (p_name p) (p_description p) (p_creator_request_id p)))"

text \<open>The answer of the client to that call.\<close>

definition create_api :: "'s client \<Rightarrow> params \<Rightarrow> 's \<Rightarrow> (exn + pydict) \<times> 's" where
  "create_api c p =
     (if p_type p = Some ''DNS_PRIVATE''
      then sd_create_private_dns_namespace c
             (private_params (p_name p) (p_description p) (p_creator_request_id p) (p_vpc_id p))
      else sd_create_public_dns_namespace c
             (public_params (p_name p) (p_description p) (p_creator_request_id p)))"

text \<open>
  None of the next \<open>n\<close> polls of the operation, from the remote state \<open>s\<close> on,
  returns a response with the status SUCCESS (a poll that raises ends the polling).
\<close>

fun never_success :: "'s client \<Rightarrow> pyval \<Rightarrow> nat \<Rightarrow> 's \<Rightarrow> bool" where
  "never_success c operation 0 s = True"
| "never_success c operation (Suc n) s =
     (case sd_get_operation c operation s of
        (Inl e, s1) \<Rightarrow> True
      | (Inr response, s1) \<Rightarrow> \<not> acceptor_success response \<and> never_success c operation n s1)"

text \<open>
  One dictionary is another with the fields \<open>ks\<close> converted to their string form:
  the same field names in the same order, the fields in \<open>ks\<close> replaced by the string
  of their value, every other field unchanged.
\<close>

definition stringified :: "(pyval \<Rightarrow> string) \<Rightarrow> string list \<Rightarrow> pydict \<Rightarrow> pydict \<Rightarrow> bool" where
  "stringified str ks e e' \<longleftrightarrow>
     map fst e' = map fst e \<and>
     (\<forall>k. map_of e' k =
        (if k \<in> set ks then map_option (\<lambda>v. PStr (str v)) (map_of e k) else map_of e k))"

text \<open>The dictionary with the field \<open>k\<close>, if it has one, replaced by the string of its value.\<close>

definition conv :: "(pyval \<Rightarrow> string) \<Rightarrow> string \<Rightarrow> pydict \<Rightarrow> pydict" where
  "conv str k e = (case map_of e k of None \<Rightarrow> e | Some v \<Rightarrow> AList.update k (PStr (str v)) e)"

text \<open>The dictionary with \<open>g\<close> applied to the dictionaries of the list under \<open>k\<close>.\<close>

definition conv_items :: "(pydict \<Rightarrow> pydict) \<Rightarrow> string \<Rightarrow> pydict \<Rightarrow> pydict" where
  "conv_items g k d =
     (case map_of d k of
        Some (PList xs) \<Rightarrow>
          AList.update k (PList (map (\<lambda>x. case x of PDict e \<Rightarrow> PDict (g e) | _ \<Rightarrow> x) xs)) d
      | _ \<Rightarrow> d)"

section \<open>A stateful model of the remote\<close>

text \<open>
  A remote that holds a list of namespaces and the operations that created them. A
  create adds an operation, and, when operations succeed, a namespace with the given
  name and the type of the call under a fresh identifier. Every operation reports the
  status the remote is run with.
\<close>

record remote =
  namespaces :: "pydict list"
  operations :: "(pyval \<times> pyval) list"

definition id_length :: "pydict \<Rightarrow> nat" where
  "id_length ns = (case map_of ns ''Id'' of Some (PStr i) \<Rightarrow> length i | _ \<Rightarrow> 0)"

definition fresh_id :: "pydict list \<Rightarrow> string" where
  "fresh_id nss = replicate (Suc (fold max (map id_length nss) 0)) CHR ''n''"

definition filter_type :: "pyval \<Rightarrow> string option" where
  "filter_type fs =
     (case fs of
        PList [PDict f] \<Rightarrow> (case map_of f ''Values'' of Some (PList [PStr t]) \<Rightarrow> Some t | _ \<Rightarrow> None)
      | _ \<Rightarrow> None)"

definition remote_list :: "pyval \<Rightarrow> remote \<Rightarrow> (exn + pydict) \<times> remote" where
  "remote_list fs s =
     (Inr [(''Namespaces'',
            PList (map PDict (filter (\<lambda>ns. case filter_type fs of None \<Rightarrow> True
                                            | Some t \<Rightarrow> map_of ns ''Type'' = Some (PStr t))
                                (namespaces s))))], s)"

definition remote_get :: "pyval \<Rightarrow> remote \<Rightarrow> (exn + pydict) \<times> remote" where
  "remote_get ident s =
     (case find (\<lambda>ns. map_of ns ''Id'' = Some ident) (namespaces s) of
        None \<Rightarrow> (Inl (ClientError ''NamespaceNotFound''), s)
      | Some ns \<Rightarrow> (Inr [(''Namespace'', PDict ns)], s))"

definition remote_create :: "string \<Rightarrow> string \<Rightarrow> pydict \<Rightarrow> remote \<Rightarrow> (exn + pydict) \<times> remote" where
  "remote_create status kind ps s =
     (case map_of ps ''Name'' of
        None \<Rightarrow> (Inl (ClientError ''Missing required parameter Name''), s)
      | Some n \<Rightarrow>
          (let i = fresh_id (namespaces s);
               ns = [(''Id'', PStr i), (''Name'', n), (''Type'', PStr kind),
                     (''CreateDate'', PDatetime ''2019-01-01 00:00:00'')]
           in (Inr [(''OperationId'', PStr (''op-'' @ i))],
               s\<lparr> namespaces := (if status = ''SUCCESS'' then ns # namespaces s else namespaces s),
                   operations := (PStr (''op-'' @ i), PStr i) # operations s \<rparr>)))"

definition remote_operation :: "string \<Rightarrow> pyval \<Rightarrow> remote \<Rightarrow> (exn + pydict) \<times> remote" where
  "remote_operation status operation s =
     (case map_of (operations s) operation of
        None \<Rightarrow> (Inl (ClientError ''OperationNotFound''), s)
      | Some target \<Rightarrow>
          (Inr [(''Operation'',
                 PDict [(''Id'', operation), (''Status'', PStr status),
                        (''Targets'', PDict [(''NAMESPACE'', target)])])], s))"

definition remote_delete :: "pyval \<Rightarrow> remote \<Rightarrow> (exn + pydict) \<times> remote" where
  "remote_delete ident s =
     (if find (\<lambda>ns. map_of ns ''Id'' = Some ident) (namespaces s) = None
      then (Inl (ClientError ''NamespaceNotFound''), s)
      else (Inr [(''OperationId'', PStr ''op-delete'')],
            s\<lparr> namespaces := filter (\<lambda>ns. map_of ns ''Id'' \<noteq> Some ident) (namespaces s) \<rparr>))"

definition remote_client :: "string \<Rightarrow> remote client" where
  "remote_client status =
     \<lparr> sd_list_namespaces = remote_list,
       sd_get_namespace = remote_get,
       sd_create_public_dns_namespace = remote_create status ''DNS_PUBLIC'',
       sd_create_private_dns_namespace = remote_create status ''DNS_PRIVATE'',
       sd_get_operation = remote_operation status,
       sd_delete_namespace = remote_delete \<rparr>"

text \<open>The namespaces of a type, the namespace a create adds, and the remote after it.\<close>

definition of_type :: "string \<Rightarrow> pydict list \<Rightarrow> pydict list" where
  "of_type t nss = filter (\<lambda>ns. map_of ns ''Type'' = Some (PStr t)) nss"

definition created_ns :: "string \<Rightarrow> string \<Rightarrow> remote \<Rightarrow> pydict" where
  "created_ns n t s =
     [(''Id'', PStr (fresh_id (namespaces s))), (''Name'', PStr n), (''Type'', PStr t),
      (''CreateDate'', PDatetime ''2019-01-01 00:00:00'')]"

definition after_create :: "string \<Rightarrow> string \<Rightarrow> remote \<Rightarrow> remote" where
  "after_create n t s =
     s\<lparr> namespaces := created_ns n t s # namespaces s,
        operations := (PStr (''op-'' @ fresh_id (namespaces s)), PStr (fresh_id (namespaces s)))
                      # operations s \<rparr>"

text \<open>No namespace of the remote has the name and the type.\<close>

definition no_match :: "string \<Rightarrow> string \<Rightarrow> remote \<Rightarrow> bool" where
  "no_match n t s \<longleftrightarrow>
     list_all (\<lambda>ns. \<not> (map_of ns ''Name'' = Some (PStr n) \<and> map_of ns ''Type'' = Some (PStr t)))
       (namespaces s)"

text \<open>Every namespace of the remote has a name.\<close>

definition all_named :: "remote \<Rightarrow> bool" where
  "all_named s \<longleftrightarrow> list_all (\<lambda>ns. map_of ns ''Name'' \<noteq> None) (namespaces s)"

text \<open>Concrete arguments and remote states for the examples.\<close>

definition args_private :: args where
  "args_private =
     \<lparr> a_state = Some ''present'', a_type = Some ''DNS_PRIVATE'', a_name = Some ''my-namespace'',
       a_creator_request_id = None, a_description = None, a_wait = Some True,
       a_vpc_id = Some ''vpc-123'' \<rparr>"

definition empty_remote :: remote where
  "empty_remote = \<lparr> namespaces = [], operations = [] \<rparr>"

definition my_namespace :: pydict where
  "my_namespace = [(''Id'', PStr ''ns-1''), (''Name'', PStr ''my-namespace''),
                   (''Type'', PStr ''DNS_PRIVATE''),
                   (''CreateDate'', PDatetime ''2019-01-01 00:00:00'')]"

definition one_remote :: remote where
  "one_remote = \<lparr> namespaces = [my_namespace], operations = [] \<rparr>"

definition two_remote :: remote where
  "two_remote = \<lparr> namespaces = [my_namespace, (''Id'', PStr ''ns-2'') # tl my_namespace],
                  operations = [] \<rparr>"

definition params_private :: params where
  "params_private =
     \<lparr> p_state = ''present'', p_type = Some ''DNS_PRIVATE'', p_name = ''my-namespace'',
       p_creator_request_id = None, p_description = None, p_wait = True,
       p_vpc_id = Some ''vpc-123'' \<rparr>"

text \<open>A stand-in for \<open>str\<close>: the text of a datetime, a string itself.\<close>

definition example_str :: "pyval \<Rightarrow> string" where
  "example_str v = (case v of PDatetime t \<Rightarrow> t | PStr x \<Rightarrow> x | _ \<Rightarrow> [])"

definition private_filters :: pyval where
  "private_filters = PList [PDict [(''Name'', PStr ''TYPE''), (''Values'', PList [PStr ''DNS_PRIVATE''])]]"

section \<open>Auxiliary facts\<close>

lemma bind_e_simps:
  "bind_e (Inl e) f = Inl e"
  "bind_e (Inr a) f = f a"
  by (simp_all add: bind_e_def)

lemma matching_dicts:
  "\<forall>d\<in>set nss. map_of d ''Name'' \<noteq> None \<Longrightarrow>
   matching_namespaces n acc (map PDict nss) = Inr (acc @ map PDict (named n nss))"
  by (induction nss arbitrary: acc) (auto simp: named_def bind_e_def)

text \<open>The lookup on a response that lists namespace summaries, each with a name.\<close>

lemma lookup_by_name:
  assumes "sd_list_namespaces c (list_filters t) s = (Inr resp, s1)"
    and "map_of resp ''Namespaces'' = Some (PList (map PDict nss))"
    and "\<forall>d\<in>set nss. map_of d ''Name'' \<noteq> None"
  shows "get_namespaces_by_name c n t s =
           (Inr (Some (map PDict (named n nss))), s1, [ListNamespaces (list_filters t)])"
proof -
  from assms(2) have ne: "resp \<noteq> []" by auto
  have l: "list_namespaces c t s = (Inr resp, s1, [ListNamespaces (list_filters t)])"
    by (simp add: list_namespaces_def sd_call_def assms(1))
  show ?thesis
    by (simp add: get_namespaces_by_name_def io_bind_def l ne io_lift_def assms(2) bind_e_simps
          matching_dicts [OF assms(3)])
qed

text \<open>An accepted present-state invocation has one of the two types.\<close>

lemma present_type:
  assumes "AnsibleAWSModule a = Inr p" and "p_state p = ''present''"
  shows "p_type p = Some ''DNS_PRIVATE'' \<or> p_type p = Some ''DNS_PUBLIC''"
  using assms
  by (auto simp: AnsibleAWSModule_def required_if_def arg_get_def type_choices_def Let_def
           split: option.splits if_splits)

text \<open>The waiter only polls and sleeps.\<close>

lemma waiter_calls:
  "waiter_wait c operation n s = (r, s1, cs) \<Longrightarrow> \<forall>x\<in>set cs. \<not> is_create x \<and> \<not> is_delete x"
proof (induction n arbitrary: s r s1 cs)
  case 0
  then show ?case by (simp add: io_lift_def)
next
  case (Suc n)
  then show ?case
    by (auto simp: io_bind_def sd_call_def io_lift_def io_return_def sleep_def
             split: prod.splits sum.splits if_splits)
qed

text \<open>A wait none of whose polls is accepted ends in an exception.\<close>

lemma waiter_gives_up:
  "never_success c operation n s \<Longrightarrow> \<exists>e s1 cs. waiter_wait c operation n s = (Inl e, s1, cs)"
proof (induction n arbitrary: s)
  case 0
  then show ?case by (simp add: io_lift_def)
next
  case (Suc n)
  obtain r s1 where g: "sd_get_operation c operation s = (r, s1)"
    by (cases "sd_get_operation c operation s")
  show ?case
  proof (cases r)
    case (Inl e)
    then show ?thesis using g by (simp add: io_bind_def sd_call_def)
  next
    case (Inr response)
    with Suc.prems g have na: "\<not> acceptor_success response"
      and ns: "never_success c operation n s1"
      by simp_all
    from Suc.IH [OF ns] obtain e s2 cs where w: "waiter_wait c operation n s1 = (Inl e, s2, cs)"
      by blast
    show ?thesis using g Inr na w
      by (simp add: io_bind_def sd_call_def io_lift_def sleep_def)
  qed
qed

text \<open>
  The exception a wait ends in is one a poll of the operation raised, or the error of
  the waiter.
\<close>

lemma waiter_exception:
  "waiter_wait c operation n s = (Inl e, s1, cs) \<Longrightarrow>
   (\<exists>m. e = WaiterError m) \<or> (\<exists>s'. fst (sd_get_operation c operation s') = Inl e)"
proof (induction n arbitrary: s s1 cs)
  case 0
  then show ?case by (auto simp: io_lift_def)
next
  case (Suc n)
  obtain r s2 where g: "sd_get_operation c operation s = (r, s2)"
    by (cases "sd_get_operation c operation s")
  show ?case
  proof (cases r)
    case (Inl e')
    with Suc.prems g have "e' = e" by (simp add: io_bind_def sd_call_def)
    with Inl g have "fst (sd_get_operation c operation s) = Inl e" by simp
    then show ?thesis by blast
  next
    case (Inr response)
    show ?thesis
    proof (cases "acceptor_success response \<or> map_of response ''Error'' \<noteq> None \<or> n = 0")
      case True
      with Suc.prems g Inr show ?thesis
        by (auto simp: io_bind_def sd_call_def io_lift_def io_return_def split: if_splits)
    next
      case False
      with Suc.prems g Inr obtain s3 cs3 where "waiter_wait c operation n s2 = (Inl e, s3, cs3)"
        by (auto simp: io_bind_def sd_call_def sleep_def split: prod.splits sum.splits)
      from Suc.IH [OF this] show ?thesis .
    qed
  qed
qed

text \<open>Both create functions are the one create call of the type, then the common block.\<close>

lemma create_namespace_eq:
  assumes "p_type p = Some ''DNS_PRIVATE'' \<or> p_type p = Some ''DNS_PUBLIC''"
  shows "create_namespace c str (p_name p) (p_type p) (p_description p)
           (p_creator_request_id p) (p_vpc_id p) (p_wait p) =
         io_bind (io_bind (sd_call (create_api c p) (create_call p)) (\<lambda>response.
                  io_bind (io_lift (getitem (PDict response) ''OperationId'')) (\<lambda>operation.
                    if p_wait p then wait_created c operation else io_return (PDict response))))
           (\<lambda>namespace. io_lift (jsonize str namespace))"
  using assms
  by (auto simp: create_namespace_def create_private_dns_namespace_def
        create_public_dns_namespace_def create_api_def create_call_def Let_def)

lemma create_params_vpc:
  "map_of (public_params n d r) ''Vpc'' = None"
  "map_of (private_params n d r v) ''Vpc'' = Some (opt_val v)"
  by (simp_all add: public_params_def private_params_def optional_params_def)

text \<open>
  The run of a present-state invocation that finds no namespace of the name, when the
  remote answers every call of the run.
\<close>

lemma run_create:
  assumes "AnsibleAWSModule a = Inr p" and "p_state p = ''present''"
    and "sd_list_namespaces c (list_filters (p_type p)) s = (Inr resp, s1)"
    and "map_of resp ''Namespaces'' = Some (PList (map PDict nss))"
    and "\<forall>d\<in>set nss. map_of d ''Name'' \<noteq> None"
    and "named (p_name p) nss = []"
    and "create_api c p s1 = (Inr cresp, s2)"
    and "map_of cresp ''OperationId'' = Some operation"
    and "p_wait p \<Longrightarrow>
           waiter_wait c operation waiter_maxAttempts s2 = (Inr (), s3, polls) \<and>
           sd_get_operation c operation s3 = (Inr oresp, s4) \<and>
           namespace_target oresp = Inr ident \<and>
           sd_get_namespace c ident s4 = (Inr nresp, s5) \<and>
           map_of nresp ''Namespace'' = Some created"
    and "jsonize str (if p_wait p then created else PDict cresp) = Inr (PDict j)"
  shows "main c str snake a s =
           (ExitJson [(''changed'', PBool True), (''namespace'', PDict (snake j))],
            (if p_wait p then s5 else s2),
            ListNamespaces (list_filters (p_type p)) # create_call p #
              (if p_wait p then polls @ [GetOperation operation, GetNamespace ident] else []))"
proof -
  have ty: "p_type p = Some ''DNS_PRIVATE'' \<or> p_type p = Some ''DNS_PUBLIC''"
    by (rule present_type [OF assms(1,2)])
  have look: "get_namespaces_by_name c (p_name p) (p_type p) s =
                (Inr (Some []), s1, [ListNamespaces (list_filters (p_type p))])"
    using lookup_by_name [OF assms(3,4,5), of "p_name p"] by (simp add: assms(6))
  have step: "main c str snake a s =
            (ExitJson [(''changed'', PBool True), (''namespace'', PDict (snake j))], s',
             ListNamespaces (list_filters (p_type p)) # cs)"
    if "create_namespace c str (p_name p) (p_type p) (p_description p)
           (p_creator_request_id p) (p_vpc_id p) (p_wait p) s1 = (Inr (PDict j), s', cs)" for s' cs
    by (simp add: main_def assms(1,2) try_present_def io_bind_def look io_lift_def py_len_def
          that io_return_def camel_dict_to_snake_dict_def)
  show ?thesis
  proof (cases "p_wait p")
    case False
    have "create_namespace c str (p_name p) (p_type p) (p_description p)
           (p_creator_request_id p) (p_vpc_id p) (p_wait p) s1 = (Inr (PDict j), s2, [create_call p])"
      unfolding create_namespace_eq [OF ty]
      using False assms(10)
      by (simp add: io_bind_def sd_call_def assms(7,8) io_lift_def io_return_def)
    from step [OF this] show ?thesis using False by simp
  next
    case True
    from assms(9) [OF True] have
      w: "waiter_wait c operation waiter_maxAttempts s2 = (Inr (), s3, polls)" and
      o: "sd_get_operation c operation s3 = (Inr oresp, s4)" and
      t: "namespace_target oresp = Inr ident" and
      g: "sd_get_namespace c ident s4 = (Inr nresp, s5)" and
      n: "map_of nresp ''Namespace'' = Some created"
      by simp_all
    have wc: "wait_created c operation s2 =
                (Inr created, s5, polls @ [GetOperation operation, GetNamespace ident])"
      by (simp add: wait_created_def io_bind_def w sd_call_def o io_lift_def t g n)
    have "create_namespace c str (p_name p) (p_type p) (p_description p)
           (p_creator_request_id p) (p_vpc_id p) (p_wait p) s1 =
            (Inr (PDict j), s5, create_call p # polls @ [GetOperation operation, GetNamespace ident])"
      unfolding create_namespace_eq [OF ty]
      using True assms(10)
      by (simp add: io_bind_def sd_call_def assms(7,8) io_lift_def wc)
    from step [OF this] show ?thesis using True by simp
  qed
qed

text \<open>
  The run of a present-state invocation that finds one namespace of the name, when the
  remote returns its representation.
\<close>

lemma run_existing:
  assumes "AnsibleAWSModule a = Inr p" and "p_state p = ''present''"
    and "sd_list_namespaces c (list_filters (p_type p)) s = (Inr resp, s1)"
    and "map_of resp ''Namespaces'' = Some (PList (map PDict nss))"
    and "\<forall>d\<in>set nss. map_of d ''Name'' \<noteq> None"
    and "named (p_name p) nss = [d]"
    and "map_of d ''Id'' = Some ident"
    and "sd_get_namespace c ident s1 = (Inr r, s2)"
    and "map_of r ''Namespace'' = Some (PDict ns)" and "ns \<noteq> []"
    and "jsonize str (PDict ns) = Inr (PDict j)"
  shows "main c str snake a s =
           (ExitJson [(''changed'', PBool False), (''namespace'', PDict (snake j))], s2,
            [ListNamespaces (list_filters (p_type p)), GetNamespace ident])"
proof -
  have g: "get_namespace c str ident s1 = (Inr (PDict j), s2, [GetNamespace ident])"
    by (simp add: get_namespace_def io_bind_def sd_call_def assms(8,9,10,11) io_lift_def)
  have "try_present c str snake p s =
          (Inr (Some (ExitJson [(''changed'', PBool False), (''namespace'', PDict (snake j))])), s2,
            [ListNamespaces (list_filters (p_type p)), GetNamespace ident])"
    by (simp add: try_present_def io_bind_def lookup_by_name [OF assms(3,4,5)] io_lift_def
          py_len_def first_of_def bind_e_simps assms(6,7) g camel_dict_to_snake_dict_def io_return_def)
  then show ?thesis by (simp add: main_def assms(1,2))
qed

section \<open>Facts about the stateful model of the remote\<close>

lemma args_private_ok: "AnsibleAWSModule args_private = Inr params_private"
  by (simp add: AnsibleAWSModule_def args_private_def params_private_def required_if_def
        arg_get_def state_choices_def type_choices_def)

lemma args_absent_ok:
  "AnsibleAWSModule (args_private\<lparr>a_state := Some ''absent''\<rparr>) =
     Inr (params_private\<lparr>p_state := ''absent''\<rparr>)"
  by (simp add: AnsibleAWSModule_def args_private_def params_private_def required_if_def
        arg_get_def state_choices_def type_choices_def)

lemma filters_private: "list_filters (Some ''DNS_PRIVATE'') = private_filters"
  by (simp add: list_filters_def ansible_dict_to_boto3_filter_list_def private_filters_def)

lemma remote_list_type:
  "t \<noteq> [] \<Longrightarrow> sd_list_namespaces (remote_client st) (list_filters (Some t)) s =
     (Inr [(''Namespaces'', PList (map PDict (of_type t (namespaces s))))], s)"
  by (simp add: remote_client_def remote_list_def list_filters_def filter_type_def
        ansible_dict_to_boto3_filter_list_def of_type_def)

lemma remote_create_ok:
  assumes "p_type p = Some t" and "t = ''DNS_PRIVATE'' \<or> t = ''DNS_PUBLIC''"
  shows "create_api (remote_client ''SUCCESS'') p s =
           (Inr [(''OperationId'', PStr (''op-'' @ fresh_id (namespaces s)))],
            after_create (p_name p) t s)"
  using assms
  by (auto simp: create_api_def remote_client_def remote_create_def private_params_def
        public_params_def after_create_def created_ns_def Let_def)

lemma remote_create_pending:
  assumes "p_type p = Some ''DNS_PRIVATE''"
  shows "create_api (remote_client ''PENDING'') p s =
           (Inr [(''OperationId'', PStr (''op-'' @ fresh_id (namespaces s)))],
            s\<lparr> operations := (PStr (''op-'' @ fresh_id (namespaces s)), PStr (fresh_id (namespaces s)))
                      # operations s \<rparr>)"
  using assms
  by (auto simp: create_api_def remote_client_def remote_create_def private_params_def Let_def)

lemma remote_wait_ok:
  "waiter_wait (remote_client ''SUCCESS'') (PStr (''op-'' @ fresh_id (namespaces s)))
      waiter_maxAttempts (after_create n t s) =
     (Inr (), after_create n t s, [GetOperation (PStr (''op-'' @ fresh_id (namespaces s)))])"
  by (simp add: waiter_maxAttempts_def numeral_eq_Suc io_bind_def sd_call_def remote_client_def
        remote_operation_def after_create_def acceptor_success_def path_get_def io_return_def)

lemma remote_operation_ok:
  "sd_get_operation (remote_client ''SUCCESS'') (PStr (''op-'' @ fresh_id (namespaces s)))
      (after_create n t s) =
     (Inr [(''Operation'',
            PDict [(''Id'', PStr (''op-'' @ fresh_id (namespaces s))), (''Status'', PStr ''SUCCESS''),
                   (''Targets'', PDict [(''NAMESPACE'', PStr (fresh_id (namespaces s)))])])],
      after_create n t s)"
  by (simp add: remote_client_def remote_operation_def after_create_def)

lemma remote_target_ok:
  "namespace_target [(''Operation'', PDict [(''Id'', i), (''Status'', st),
                       (''Targets'', PDict [(''NAMESPACE'', x)])])] = Inr x"
  by (simp add: namespace_target_def bind_e_def)

lemma remote_get_ok:
  "sd_get_namespace (remote_client st) (PStr (fresh_id (namespaces s))) (after_create n t s) =
     (Inr [(''Namespace'', PDict (created_ns n t s))], after_create n t s)"
  by (simp add: remote_client_def remote_get_def after_create_def created_ns_def)

lemma jsonize_created: "jsonize str (PDict (created_ns n t s)) = Inr (PDict (created_ns n t s))"
  by (simp add: jsonize_def stringify_def bind_e_def created_ns_def)

lemma jsonize_operation_id: "jsonize str (PDict [(''OperationId'', v)]) = Inr (PDict [(''OperationId'', v)])"
  by (simp add: jsonize_def stringify_def bind_e_def)

lemma named_of_type_no_match:
  "no_match n t s \<Longrightarrow> named n (of_type t (namespaces s)) = []"
  by (auto simp: no_match_def named_def of_type_def filter_empty_conv list_all_iff)

lemma named_after_create:
  "no_match n t s \<Longrightarrow> named n (of_type t (namespaces (after_create n t s))) = [created_ns n t s]"
  using named_of_type_no_match [of n t s]
  by (simp add: after_create_def named_def of_type_def created_ns_def)

lemma all_named_of_type:
  "all_named s \<Longrightarrow> \<forall>d\<in>set (of_type t (namespaces s)). map_of d ''Name'' \<noteq> None"
  by (auto simp: all_named_def of_type_def list_all_iff)

lemma all_named_after_create: "all_named s \<Longrightarrow> all_named (after_create n t s)"
  by (simp add: all_named_def after_create_def created_ns_def)

text \<open>The first run on the model: the namespace is created.\<close>

lemma model_first_run:
  assumes a: "AnsibleAWSModule a = Inr p" and st: "p_state p = ''present''"
    and t: "p_type p = Some t" and nm: "no_match (p_name p) t s" and an: "all_named s"
  shows "\<exists>out cs. main (remote_client ''SUCCESS'') str snake a s =
           (ExitJson [(''changed'', PBool True), (''namespace'', PDict (snake out))],
            after_create (p_name p) t s, cs)"
proof -
  let ?c = "remote_client ''SUCCESS''"
  let ?op = "PStr (''op-'' @ fresh_id (namespaces s))"
  from present_type [OF a st] t have ty: "t = ''DNS_PRIVATE'' \<or> t = ''DNS_PUBLIC''" by simp
  then have tne: "t \<noteq> []" by auto
  have h3: "sd_list_namespaces ?c (list_filters (p_type p)) s =
              (Inr [(''Namespaces'', PList (map PDict (of_type t (namespaces s))))], s)"
    by (simp add: t remote_list_type [OF tne])
  have h4: "map_of [(''Namespaces'', PList (map PDict (of_type t (namespaces s))))] ''Namespaces'' =
              Some (PList (map PDict (of_type t (namespaces s))))" by simp
  have h8: "map_of [(''OperationId'', ?op)] ''OperationId'' = Some ?op" by simp
  have h9: "p_wait p \<Longrightarrow>
           waiter_wait ?c ?op waiter_maxAttempts (after_create (p_name p) t s) =
             (Inr (), after_create (p_name p) t s, [GetOperation ?op]) \<and>
           sd_get_operation ?c ?op (after_create (p_name p) t s) =
             (Inr [(''Operation'', PDict [(''Id'', ?op), (''Status'', PStr ''SUCCESS''),
                   (''Targets'', PDict [(''NAMESPACE'', PStr (fresh_id (namespaces s)))])])],
              after_create (p_name p) t s) \<and>
           namespace_target [(''Operation'', PDict [(''Id'', ?op), (''Status'', PStr ''SUCCESS''),
                   (''Targets'', PDict [(''NAMESPACE'', PStr (fresh_id (namespaces s)))])])] =
             Inr (PStr (fresh_id (namespaces s))) \<and>
           sd_get_namespace ?c (PStr (fresh_id (namespaces s))) (after_create (p_name p) t s) =
             (Inr [(''Namespace'', PDict (created_ns (p_name p) t s))], after_create (p_name p) t s) \<and>
           map_of [(''Namespace'', PDict (created_ns (p_name p) t s))] ''Namespace'' =
             Some (PDict (created_ns (p_name p) t s))"
    using remote_wait_ok [of s "p_name p" t] remote_operation_ok [of s "p_name p" t]
      remote_get_ok [of "''SUCCESS''" s "p_name p" t]
    by (simp add: remote_target_ok)
  have h10: "jsonize str (if p_wait p then PDict (created_ns (p_name p) t s) else PDict [(''OperationId'', ?op)]) =
               Inr (PDict (if p_wait p then created_ns (p_name p) t s else [(''OperationId'', ?op)]))"
    by (simp add: jsonize_created jsonize_operation_id)
  from run_create [OF a st h3 h4 all_named_of_type [OF an] named_of_type_no_match [OF nm]
      remote_create_ok [OF t ty] h8 h9 h10, where snake = snake]
  show ?thesis by auto
qed

text \<open>The second run on the model: the namespace is found.\<close>

lemma model_second_run:
  assumes a: "AnsibleAWSModule a = Inr p" and st: "p_state p = ''present''"
    and t: "p_type p = Some t" and nm: "no_match (p_name p) t s" and an: "all_named s"
  shows "main (remote_client ''SUCCESS'') str snake a (after_create (p_name p) t s) =
           (ExitJson [(''changed'', PBool False),
                      (''namespace'', PDict (snake (created_ns (p_name p) t s)))],
            after_create (p_name p) t s,
            [ListNamespaces (list_filters (p_type p)), GetNamespace (PStr (fresh_id (namespaces s)))])"
proof -
  let ?c = "remote_client ''SUCCESS''"
  let ?s = "after_create (p_name p) t s"
  from present_type [OF a st] t have ty: "t = ''DNS_PRIVATE'' \<or> t = ''DNS_PUBLIC''" by simp
  then have tne: "t \<noteq> []" by auto
  have h3: "sd_list_namespaces ?c (list_filters (p_type p)) ?s =
              (Inr [(''Namespaces'', PList (map PDict (of_type t (namespaces ?s))))], ?s)"
    by (simp add: t remote_list_type [OF tne])
  have h4: "map_of [(''Namespaces'', PList (map PDict (of_type t (namespaces ?s))))] ''Namespaces'' =
              Some (PList (map PDict (of_type t (namespaces ?s))))" by simp
  have h7: "map_of (created_ns (p_name p) t s) ''Id'' = Some (PStr (fresh_id (namespaces s)))"
    by (simp add: created_ns_def)
  have h9: "map_of [(''Namespace'', PDict (created_ns (p_name p) t s))] ''Namespace'' =
              Some (PDict (created_ns (p_name p) t s))" by simp
  have h10: "created_ns (p_name p) t s \<noteq> []" by (simp add: created_ns_def)
  from run_existing [OF a st h3 h4 all_named_of_type [OF all_named_after_create [OF an]]
      named_after_create [OF nm] h7 remote_get_ok h9 h10 jsonize_created, where snake = snake]
  show ?thesis .
qed

lemmas model_defs = remote_client_def remote_list_def remote_get_def remote_create_def
  remote_operation_def remote_delete_def filter_type_def private_filters_def
  empty_remote_def one_remote_def two_remote_def my_namespace_def fresh_id_def id_length_def
  Let_def

lemmas run_defs = main_def try_present_def try_absent_def get_namespaces_by_name_def
  list_namespaces_def list_filters_def ansible_dict_to_boto3_filter_list_def
  get_namespace_def create_namespace_def create_private_dns_namespace_def
  create_public_dns_namespace_def private_params_def public_params_def optional_params_def
  delete_namespace_def jsonize_def stringify_def camel_dict_to_snake_dict_def py_len_def
  first_of_def io_bind_def io_lift_def io_return_def sd_call_def bind_e_def

lemmas check_defs = AnsibleAWSModule_def args_private_def required_if_def arg_get_def
  state_choices_def type_choices_def

text \<open>The lookup of the example invocation on the three example remotes.\<close>

lemma list_private:
  "sd_list_namespaces (remote_client st) (list_filters (p_type params_private)) s =
     (Inr [(''Namespaces'', PList (map PDict (of_type ''DNS_PRIVATE'' (namespaces s))))], s)"
  by (simp add: params_private_def remote_list_type)

lemma listed_private:
  "map_of [(''Namespaces'', PList (map PDict (of_type ''DNS_PRIVATE'' (namespaces s))))] ''Namespaces'' =
     Some (PList (map PDict (of_type ''DNS_PRIVATE'' (namespaces s))))"
  by simp

section \<open>What the normalization does\<close>

lemma stringify_dict:
  "stringify str k (PDict e) =
     Inr (PDict (case map_of e k of None \<Rightarrow> e | Some v \<Rightarrow> AList.update k (PStr (str v)) e))"
  by (auto simp: stringify_def bind_e_def split: option.splits)

lemma conv_keys: "map fst (conv str k e) = map fst e"
  by (auto simp: conv_def update_keys map_of_eq_None_iff [symmetric] split: option.splits)

lemma conv_map_of:
  "map_of (conv str k e) k' =
     (if k' = k then map_option (\<lambda>v. PStr (str v)) (map_of e k) else map_of e k')"
  by (auto simp: conv_def update_conv' split: option.splits)

lemma conv_stringified: "stringified str [k] e (conv str k e)"
  by (simp add: stringified_def conv_keys conv_map_of)

lemma conv2_stringified:
  "k1 \<noteq> k2 \<Longrightarrow> stringified str [k1, k2] e (conv str k2 (conv str k1 e))"
  by (auto simp: stringified_def conv_keys conv_map_of)

lemma map_e_dicts:
  "(\<And>e. f (PDict e) = Inr (PDict (g e))) \<Longrightarrow> map_e f (map PDict ds) = Inr (map PDict (map g ds))"
  by (induction ds) (simp_all add: bind_e_def)

lemma for_each_dicts:
  "(\<And>e. f (PDict e) = Inr (PDict (g e))) \<Longrightarrow>
   for_each f (PList (map PDict ds)) = Inr (PList (map PDict (map g ds)))"
  by (simp add: for_each_def bind_e_def map_e_dicts)

lemma conv_items_absent: "map_of d k = None \<Longrightarrow> conv_items g k d = d"
  by (simp add: conv_items_def)

lemma conv_items_dicts:
  "map_of d k = Some (PList (map PDict ds)) \<Longrightarrow>
   conv_items g k d = AList.update k (PList (map PDict (map g ds))) d"
  by (simp add: conv_items_def comp_def)

lemma conv_items_map_of:
  "k' \<noteq> k \<Longrightarrow> map_of (conv_items g k d) k' = map_of d k'"
  by (auto simp: conv_items_def update_conv' split: option.splits pyval.splits)

lemma jsonize_dict:
  assumes "\<forall>v. map_of d ''deployments'' = Some v \<longrightarrow> (\<exists>ds. v = PList (map PDict ds))"
    and "\<forall>v. map_of d ''events'' = Some v \<longrightarrow> (\<exists>es. v = PList (map PDict es))"
  shows "jsonize str (PDict d) =
           Inr (PDict (conv_items (conv str ''createdAt'') ''events''
                  (conv_items (\<lambda>e. conv str ''updatedAt'' (conv str ''createdAt'' e)) ''deployments''
                     (conv str ''createdAt'' d))))"
proof -
  let ?d1 = "conv str ''createdAt'' d"
  let ?g = "\<lambda>e. conv str ''updatedAt'' (conv str ''createdAt'' e)"
  let ?d2 = "conv_items ?g ''deployments'' ?d1"
  have s1: "stringify str ''createdAt'' (PDict d) = Inr (PDict ?d1)"
    by (simp add: stringify_dict conv_def)
  have body: "bind_e (stringify str ''createdAt'' (PDict e)) (stringify str ''updatedAt'') = Inr (PDict (?g e))" for e
    by (simp add: stringify_dict bind_e_def conv_def)
  have body2: "stringify str ''createdAt'' (PDict e) = Inr (PDict (conv str ''createdAt'' e))" for e
    by (simp add: stringify_dict conv_def)
  have m1: "map_of ?d1 ''deployments'' = map_of d ''deployments''" by (simp add: conv_map_of)
  have s2: "(if map_of ?d1 ''deployments'' \<noteq> None
             then bind_e (getitem (PDict ?d1) ''deployments'') (\<lambda>ds.
                  bind_e (for_each (\<lambda>d. bind_e (stringify str ''createdAt'' d)
                                              (stringify str ''updatedAt'')) ds) (\<lambda>ds'.
                    setitem (PDict ?d1) ''deployments'' ds'))
             else Inr (PDict ?d1)) = Inr (PDict ?d2)"
  proof (cases "map_of d ''deployments''")
    case None
    then show ?thesis by (simp add: m1 conv_items_absent)
  next
    case (Some v)
    with assms(1) obtain ds where v: "v = PList (map PDict ds)" by blast
    with Some m1 have d1: "map_of ?d1 ''deployments'' = Some (PList (map PDict ds))" by simp
    have "for_each (\<lambda>d. bind_e (stringify str ''createdAt'' d) (stringify str ''updatedAt''))
            (PList (map PDict ds)) = Inr (PList (map PDict (map ?g ds)))"
      by (rule for_each_dicts) (rule body)
    then show ?thesis
      by (simp add: d1 bind_e_def conv_items_dicts [OF d1])
  qed
  have m2: "map_of ?d2 ''events'' = map_of d ''events''"
    by (simp add: conv_items_map_of conv_map_of)
  have s3: "(if map_of ?d2 ''events'' \<noteq> None
       then bind_e (getitem (PDict ?d2) ''events'') (\<lambda>es.
            bind_e (for_each (stringify str ''createdAt'') es) (\<lambda>es'.
              setitem (PDict ?d2) ''events'' es'))
       else Inr (PDict ?d2)) = Inr (PDict (conv_items (conv str ''createdAt'') ''events'' ?d2))"
  proof (cases "map_of d ''events''")
    case None
    with m2 have "map_of ?d2 ''events'' = None" by simp
    then show ?thesis by (simp add: conv_items_absent)
  next
    case (Some v)
    with assms(2) obtain es where v: "v = PList (map PDict es)" by blast
    with Some m2 have d2: "map_of ?d2 ''events'' = Some (PList (map PDict es))" by simp
    have "for_each (stringify str ''createdAt'') (PList (map PDict es)) =
            Inr (PList (map PDict (map (conv str ''createdAt'') es)))"
      by (rule for_each_dicts) (rule body2)
    then show ?thesis
      by (simp add: d2 bind_e_def conv_items_dicts [OF d2])
  qed
  show ?thesis
    unfolding jsonize_def
    by (simp only: s1 s2 s3 bind_e_simps contains.simps)
qed

text \<open>
  The part of C9 that holds: on a representation whose \<open>deployments\<close> and
  \<open>events\<close>, if any, are lists of dictionaries, \<open>jsonize\<close> keeps the field names, leaves
  every field unchanged but \<open>createdAt\<close>, \<open>deployments\<close> and \<open>events\<close>, replaces
  \<open>createdAt\<close> by its string, and converts \<open>createdAt\<close> and \<open>updatedAt\<close> in every
  deployment and \<open>createdAt\<close> in every event, leaving their other fields unchanged.
\<close>

lemma jsonize_frame:
  assumes "\<forall>v. map_of d ''deployments'' = Some v \<longrightarrow> (\<exists>ds. v = PList (map PDict ds))"
    and "\<forall>v. map_of d ''events'' = Some v \<longrightarrow> (\<exists>es. v = PList (map PDict es))"
  shows "\<exists>d'. jsonize str (PDict d) = Inr (PDict d') \<and>
           map fst d' = map fst d \<and>
           (\<forall>k. k \<noteq> ''createdAt'' \<and> k \<noteq> ''deployments'' \<and> k \<noteq> ''events'' \<longrightarrow>
                map_of d' k = map_of d k) \<and>
           map_of d' ''createdAt'' = map_option (\<lambda>v. PStr (str v)) (map_of d ''createdAt'') \<and>
           (\<forall>ds. map_of d ''deployments'' = Some (PList (map PDict ds)) \<longrightarrow>
              (\<exists>ds'. map_of d' ''deployments'' = Some (PList (map PDict ds')) \<and>
                     list_all2 (stringified str [''createdAt'', ''updatedAt'']) ds ds')) \<and>
           (\<forall>es. map_of d ''events'' = Some (PList (map PDict es)) \<longrightarrow>
              (\<exists>es'. map_of d' ''events'' = Some (PList (map PDict es')) \<and>
                     list_all2 (stringified str [''createdAt'']) es es'))"
proof -
  let ?g = "\<lambda>e. conv str ''updatedAt'' (conv str ''createdAt'' e)"
  let ?d1 = "conv str ''createdAt'' d"
  let ?d2 = "conv_items ?g ''deployments'' ?d1"
  let ?d3 = "conv_items (conv str ''createdAt'') ''events'' ?d2"
  have keys_items: "map fst (conv_items g k e) = map fst e" for g k e
    by (auto simp: conv_items_def update_keys map_of_eq_None_iff [symmetric]
          split: option.splits pyval.splits)
  have 1: "map fst ?d3 = map fst d" by (simp add: keys_items conv_keys)
  have 2: "map_of ?d3 k = map_of d k"
    if "k \<noteq> ''createdAt'' \<and> k \<noteq> ''deployments'' \<and> k \<noteq> ''events''" for k
    using that by (simp add: conv_items_map_of conv_map_of)
  have 3: "map_of ?d3 ''createdAt'' = map_option (\<lambda>v. PStr (str v)) (map_of d ''createdAt'')"
    by (simp add: conv_items_map_of conv_map_of)
  have 4: "\<exists>ds'. map_of ?d3 ''deployments'' = Some (PList (map PDict ds')) \<and>
                     list_all2 (stringified str [''createdAt'', ''updatedAt'']) ds ds'"
    if "map_of d ''deployments'' = Some (PList (map PDict ds))" for ds
  proof -
    from that have "map_of ?d1 ''deployments'' = Some (PList (map PDict ds))"
      by (simp add: conv_map_of)
    then have "map_of ?d3 ''deployments'' = Some (PList (map PDict (map ?g ds)))"
      by (simp add: conv_items_map_of conv_items_dicts update_conv')
    moreover have "list_all2 (stringified str [''createdAt'', ''updatedAt'']) ds (map ?g ds)"
      by (simp add: list_all2_conv_all_nth conv2_stringified)
    ultimately show ?thesis by blast
  qed
  have 5: "\<exists>es'. map_of ?d3 ''events'' = Some (PList (map PDict es')) \<and>
                     list_all2 (stringified str [''createdAt'']) es es'"
    if "map_of d ''events'' = Some (PList (map PDict es))" for es
  proof -
    from that have "map_of ?d2 ''events'' = Some (PList (map PDict es))"
      by (simp add: conv_items_map_of conv_map_of)
    then have "map_of ?d3 ''events'' = Some (PList (map PDict (map (conv str ''createdAt'') es)))"
      by (simp add: conv_items_dicts update_conv')
    moreover have "list_all2 (stringified str [''createdAt'']) es (map (conv str ''createdAt'') es)"
      by (simp add: list_all2_conv_all_nth conv_stringified)
    ultimately show ?thesis by blast
  qed
  from jsonize_dict [OF assms, of str] 1 2 3 4 5 show ?thesis by blast
qed


section \<open>The claims\<close>

text \<open>
  C1. A valid present-state invocation against a remote that lists no namespace of the
  name and type issues exactly one create call, with the parameter set of its type (no
  Vpc field for DNS_PUBLIC, the Vpc field equal to vpc_id for DNS_PRIVATE), and, the
  remote answering the calls of the run, reports changed=true.
\<close>

theorem present_creates:
  assumes "AnsibleAWSModule a = Inr p" and "p_state p = ''present''"
    and "sd_list_namespaces c (list_filters (p_type p)) s = (Inr resp, s1)"
    and "map_of resp ''Namespaces'' = Some (PList (map PDict nss))"
    and "\<forall>d\<in>set nss. map_of d ''Name'' \<noteq> None"
    and "named (p_name p) nss = []"
    and "create_api c p s1 = (Inr cresp, s2)"
    and "map_of cresp ''OperationId'' = Some operation"
    and "p_wait p \<Longrightarrow>
           waiter_wait c operation waiter_maxAttempts s2 = (Inr (), s3, polls) \<and>
           sd_get_operation c operation s3 = (Inr oresp, s4) \<and>
           namespace_target oresp = Inr ident \<and>
           sd_get_namespace c ident s4 = (Inr nresp, s5) \<and>
           map_of nresp ''Namespace'' = Some created"
    and "jsonize str (if p_wait p then created else PDict cresp) = Inr (PDict j)"
  shows "\<exists>s' cs. main c str snake a s =
             (ExitJson [(''changed'', PBool True), (''namespace'', PDict (snake j))], s', cs) \<and>
           filter is_create cs = [create_call p] \<and>
           (case create_call p of
              CreatePrivateDnsNamespace ps \<Rightarrow>
                p_type p = Some ''DNS_PRIVATE'' \<and> map_of ps ''Vpc'' = Some (opt_val (p_vpc_id p))
            | CreatePublicDnsNamespace ps \<Rightarrow>
                p_type p = Some ''DNS_PUBLIC'' \<and> map_of ps ''Vpc'' = None
            | _ \<Rightarrow> False)"
proof -
  have ty: "p_type p = Some ''DNS_PRIVATE'' \<or> p_type p = Some ''DNS_PUBLIC''"
    by (rule present_type [OF assms(1,2)])
  have shape: "case create_call p of
              CreatePrivateDnsNamespace ps \<Rightarrow>
                p_type p = Some ''DNS_PRIVATE'' \<and> map_of ps ''Vpc'' = Some (opt_val (p_vpc_id p))
            | CreatePublicDnsNamespace ps \<Rightarrow>
                p_type p = Some ''DNS_PUBLIC'' \<and> map_of ps ''Vpc'' = None
            | _ \<Rightarrow> False"
    using ty by (auto simp: create_call_def create_params_vpc)
  have cr: "is_create (create_call p)" by (simp add: create_call_def)
  have quiet: "filter is_create polls = []" if "p_wait p"
    using waiter_calls [of c operation waiter_maxAttempts s2 "Inr ()" s3 polls] assms(9) [OF that]
    by (simp add: filter_empty_conv)
  note run = run_create [OF assms, where snake = snake]
  show ?thesis
  proof (cases "p_wait p")
    case True
    with run quiet shape cr show ?thesis by simp
  next
    case False
    with run shape cr show ?thesis by simp
  qed
qed

theorem present_creates_witness:
  "\<exists>s' cs. main (remote_client ''SUCCESS'') example_str (\<lambda>d. d) args_private empty_remote =
      (ExitJson [(''changed'', PBool True),
                 (''namespace'', PDict (created_ns ''my-namespace'' ''DNS_PRIVATE'' empty_remote))],
       s', cs) \<and>
     filter is_create cs =
       [CreatePrivateDnsNamespace [(''Name'', PStr ''my-namespace''), (''Vpc'', PStr ''vpc-123'')]]"
proof -
  let ?c = "remote_client ''SUCCESS''"
  let ?s2 = "after_create ''my-namespace'' ''DNS_PRIVATE'' empty_remote"
  let ?op = "PStr (''op-'' @ fresh_id (namespaces empty_remote))"
  let ?i = "PStr (fresh_id (namespaces empty_remote))"
  let ?oresp = "[(''Operation'', PDict [(''Id'', ?op), (''Status'', PStr ''SUCCESS''),
                   (''Targets'', PDict [(''NAMESPACE'', ?i)])])]"
  let ?ns = "created_ns ''my-namespace'' ''DNS_PRIVATE'' empty_remote"
  have h2: "p_state params_private = ''present''" by (simp add: params_private_def)
  have h5: "\<forall>d\<in>set (of_type ''DNS_PRIVATE'' (namespaces empty_remote)). map_of d ''Name'' \<noteq> None"
    by (simp add: of_type_def empty_remote_def)
  have h6: "named (p_name params_private) (of_type ''DNS_PRIVATE'' (namespaces empty_remote)) = []"
    by (simp add: named_def of_type_def empty_remote_def)
  have h7: "create_api ?c params_private empty_remote = (Inr [(''OperationId'', ?op)], ?s2)"
    using remote_create_ok [of params_private "''DNS_PRIVATE''" empty_remote]
    by (simp add: params_private_def)
  have h8: "map_of [(''OperationId'', ?op)] ''OperationId'' = Some ?op" by simp
  have h9: "p_wait params_private \<Longrightarrow>
           waiter_wait ?c ?op waiter_maxAttempts ?s2 = (Inr (), ?s2, [GetOperation ?op]) \<and>
           sd_get_operation ?c ?op ?s2 = (Inr ?oresp, ?s2) \<and>
           namespace_target ?oresp = Inr ?i \<and>
           sd_get_namespace ?c ?i ?s2 = (Inr [(''Namespace'', PDict ?ns)], ?s2) \<and>
           map_of [(''Namespace'', PDict ?ns)] ''Namespace'' = Some (PDict ?ns)"
    using remote_wait_ok [of empty_remote "''my-namespace''" "''DNS_PRIVATE''"]
      remote_operation_ok [of empty_remote "''my-namespace''" "''DNS_PRIVATE''"]
      remote_get_ok [of "''SUCCESS''" empty_remote "''my-namespace''" "''DNS_PRIVATE''"]
    by (simp add: remote_target_ok)
  have h10: "jsonize example_str
               (if p_wait params_private then PDict ?ns else PDict [(''OperationId'', ?op)]) =
             Inr (PDict ?ns)"
    by (simp add: params_private_def jsonize_created)
  from present_creates [OF args_private_ok h2 list_private listed_private h5 h6 h7 h8 h9 h10,
      where snake = "\<lambda>d. d"]
  show ?thesis
    by (simp add: create_call_def params_private_def private_params_def optional_params_def)
qed

text \<open>
  C2. A present-state invocation for which the remote lists exactly one namespace of
  the name and type issues no create call, fetches the full representation of that
  namespace by its id, and reports changed=false with that namespace as output.
\<close>

theorem present_existing_unchanged:
  assumes "AnsibleAWSModule a = Inr p" and "p_state p = ''present''"
    and "sd_list_namespaces c (list_filters (p_type p)) s = (Inr resp, s1)"
    and "map_of resp ''Namespaces'' = Some (PList (map PDict nss))"
    and "\<forall>d\<in>set nss. map_of d ''Name'' \<noteq> None"
    and "named (p_name p) nss = [d]"
    and "map_of d ''Id'' = Some ident"
    and "sd_get_namespace c ident s1 = (Inr r, s2)"
    and "map_of r ''Namespace'' = Some (PDict ns)" and "ns \<noteq> []"
    and "jsonize str (PDict ns) = Inr (PDict j)"
  shows "\<exists>cs. main c str snake a s =
             (ExitJson [(''changed'', PBool False), (''namespace'', PDict (snake j))], s2, cs) \<and>
           cs = [ListNamespaces (list_filters (p_type p)), GetNamespace ident] \<and>
           filter is_create cs = []"
  using run_existing [OF assms, where snake = snake] by simp

theorem present_existing_unchanged_witness:
  "\<exists>cs. main (remote_client ''SUCCESS'') example_str (\<lambda>d. d) args_private one_remote =
      (ExitJson [(''changed'', PBool False), (''namespace'', PDict my_namespace)], one_remote, cs) \<and>
     cs = [ListNamespaces private_filters, GetNamespace (PStr ''ns-1'')] \<and>
     filter is_create cs = []"
proof -
  let ?c = "remote_client ''SUCCESS''"
  have h2: "p_state params_private = ''present''" by (simp add: params_private_def)
  have h5: "\<forall>d\<in>set (of_type ''DNS_PRIVATE'' (namespaces one_remote)). map_of d ''Name'' \<noteq> None"
    by (simp add: of_type_def one_remote_def my_namespace_def)
  have h6: "named (p_name params_private) (of_type ''DNS_PRIVATE'' (namespaces one_remote)) =
              [my_namespace]"
    by (simp add: named_def of_type_def one_remote_def my_namespace_def params_private_def)
  have h7: "map_of my_namespace ''Id'' = Some (PStr ''ns-1'')" by (simp add: my_namespace_def)
  have h8: "sd_get_namespace ?c (PStr ''ns-1'') one_remote =
              (Inr [(''Namespace'', PDict my_namespace)], one_remote)"
    by (simp add: model_defs)
  have h9: "map_of [(''Namespace'', PDict my_namespace)] ''Namespace'' = Some (PDict my_namespace)"
    by simp
  have h10: "my_namespace \<noteq> []" by (simp add: my_namespace_def)
  have h11: "jsonize example_str (PDict my_namespace) = Inr (PDict my_namespace)"
    by (simp add: jsonize_def stringify_def bind_e_def my_namespace_def)
  from present_existing_unchanged [OF args_private_ok h2 list_private listed_private h5 h6 h7 h8
      h9 h10 h11, where snake = "\<lambda>d. d"]
  show ?thesis by (simp add: params_private_def filters_private)
qed

text \<open>
  The part of C3 that holds: a present-state invocation without a type is rejected by the
  argument check, before any call to the remote and with the remote state untouched.
\<close>

lemma present_without_type_rejected:
  assumes "a_state a = Some ''present''" and "a_type a = None"
  shows "\<exists>msg. main c str snake a s = (FailJson msg, s, [])"
  using assms
  by (auto simp: main_def AnsibleAWSModule_def required_if_def arg_get_def state_choices_def
        split: option.splits)

text \<open>
  C3. An invocation with type DNS_PRIVATE and no vpc_id is to be rejected before any
  remote call. The conditional requirement of \<open>main\<close> tests the type against the
  value private, which is not one of the choices of the type, so it never applies: the
  invocation below passes the check, lists the namespaces and issues the create call
  with the Vpc field None.
\<close>

theorem private_without_vpc_accepted:
  "main (remote_client ''SUCCESS'') str snake
     (args_private\<lparr>a_vpc_id := None, a_wait := Some False\<rparr>) empty_remote =
   (ExitJson [(''changed'', PBool True),
              (''namespace'', PDict (snake [(''OperationId'', PStr ''op-n'')]))],
    \<lparr> namespaces = [[(''Id'', PStr ''n''), (''Name'', PStr ''my-namespace''),
                      (''Type'', PStr ''DNS_PRIVATE''),
                      (''CreateDate'', PDatetime ''2019-01-01 00:00:00'')]],
      operations = [(PStr ''op-n'', PStr ''n'')] \<rparr>,
    [ListNamespaces private_filters,
     CreatePrivateDnsNamespace [(''Name'', PStr ''my-namespace''), (''Vpc'', PNone)]])"
  by (simp add: check_defs run_defs model_defs)

text \<open>
  C4. A create with wait=false is to return the operation identifier as the output
  \<open>operation_id\<close>, and the output \<open>namespace\<close> only when the create was waited for
  or the namespace existed. The run below polls no operation and reports changed=true,
  but its output has the two keys \<open>changed\<close> and \<open>namespace\<close>: the response of the
  create call is returned under \<open>namespace\<close>, and there is no output \<open>operation_id\<close>.
\<close>

theorem nowait_output:
  "main (remote_client ''SUCCESS'') str snake (args_private\<lparr>a_wait := Some False\<rparr>) empty_remote =
   (ExitJson [(''changed'', PBool True),
              (''namespace'', PDict (snake [(''OperationId'', PStr ''op-n'')]))],
    \<lparr> namespaces = [[(''Id'', PStr ''n''), (''Name'', PStr ''my-namespace''),
                      (''Type'', PStr ''DNS_PRIVATE''),
                      (''CreateDate'', PDatetime ''2019-01-01 00:00:00'')]],
      operations = [(PStr ''op-n'', PStr ''n'')] \<rparr>,
    [ListNamespaces private_filters,
     CreatePrivateDnsNamespace [(''Name'', PStr ''my-namespace''), (''Vpc'', PStr ''vpc-123'')]])"
  by (simp add: check_defs run_defs model_defs)

text \<open>
  C5. An absent-state invocation for which the remote lists exactly one namespace of
  the name and type issues exactly one delete call, with the id of that namespace, and
  reports changed=true.
\<close>

theorem absent_deletes_match:
  assumes "AnsibleAWSModule a = Inr p" and "p_state p = ''absent''"
    and "sd_list_namespaces c (list_filters (p_type p)) s = (Inr resp, s1)"
    and "map_of resp ''Namespaces'' = Some (PList (map PDict nss))"
    and "\<forall>d\<in>set nss. map_of d ''Name'' \<noteq> None"
    and "named (p_name p) nss = [d]"
    and "map_of d ''Id'' = Some ident"
    and "sd_delete_namespace c ident s1 = (Inr r, s2)"
  shows "\<exists>cs. main c str snake a s = (ExitJson [(''changed'', PBool True)], s2, cs) \<and>
           cs = [ListNamespaces (list_filters (p_type p)), DeleteNamespace ident] \<and>
           filter is_delete cs = [DeleteNamespace ident]"
proof -
  have "try_absent c p s = (Inr (ExitJson [(''changed'', PBool True)]), s2,
            [ListNamespaces (list_filters (p_type p)), DeleteNamespace ident])"
    by (simp add: try_absent_def io_bind_def lookup_by_name [OF assms(3,4,5)] io_lift_def
          first_of_def bind_e_simps assms(6,7,8) delete_namespace_def sd_call_def io_return_def)
  then show ?thesis using assms(2) by (simp add: main_def assms(1))
qed

theorem absent_deletes_match_witness:
  "\<exists>cs. main (remote_client ''SUCCESS'') example_str (\<lambda>d. d)
           (args_private\<lparr>a_state := Some ''absent''\<rparr>) one_remote =
      (ExitJson [(''changed'', PBool True)], empty_remote, cs) \<and>
     cs = [ListNamespaces private_filters, DeleteNamespace (PStr ''ns-1'')] \<and>
     filter is_delete cs = [DeleteNamespace (PStr ''ns-1'')]"
proof -
  let ?c = "remote_client ''SUCCESS''"
  let ?p = "params_private\<lparr>p_state := ''absent''\<rparr>"
  have h2: "p_state ?p = ''absent''" by simp
  have h3: "sd_list_namespaces ?c (list_filters (p_type ?p)) one_remote =
     (Inr [(''Namespaces'', PList (map PDict (of_type ''DNS_PRIVATE'' (namespaces one_remote))))],
      one_remote)"
    using list_private [of "''SUCCESS''" one_remote] by (simp add: params_private_def)
  have h5: "\<forall>d\<in>set (of_type ''DNS_PRIVATE'' (namespaces one_remote)). map_of d ''Name'' \<noteq> None"
    by (simp add: of_type_def one_remote_def my_namespace_def)
  have h6: "named (p_name ?p) (of_type ''DNS_PRIVATE'' (namespaces one_remote)) = [my_namespace]"
    by (simp add: named_def of_type_def one_remote_def my_namespace_def params_private_def)
  have h7: "map_of my_namespace ''Id'' = Some (PStr ''ns-1'')" by (simp add: my_namespace_def)
  have h8: "sd_delete_namespace ?c (PStr ''ns-1'') one_remote =
              (Inr [(''OperationId'', PStr ''op-delete'')], empty_remote)"
    by (simp add: model_defs)
  from absent_deletes_match [OF args_absent_ok h2 h3 listed_private h5 h6 h7 h8,
      where str = example_str and snake = "\<lambda>d. d"]
  show ?thesis by (simp add: params_private_def filters_private)
qed

text \<open>
  C6. An absent-state invocation for which the remote lists no namespace of the name
  and type does not succeed as a no-op with changed=false: the delete statement is run
  on the empty result of the lookup, the indexing of the empty list raises, and the
  invocation ends in \<open>fail_json\<close>, no delete call having reached the remote.
\<close>

theorem absent_no_match_fails:
  assumes "AnsibleAWSModule a = Inr p" and "p_state p = ''absent''"
    and "sd_list_namespaces c (list_filters (p_type p)) s = (Inr resp, s1)"
    and "map_of resp ''Namespaces'' = Some (PList (map PDict nss))"
    and "\<forall>d\<in>set nss. map_of d ''Name'' \<noteq> None"
    and "named (p_name p) nss = []"
  shows "main c str snake a s =
           (FailJson (''Exception '' @ [CHR 0x27] @ p_name p @ [CHR 0x27] @ '': ''
                      @ str_exn (IndexError ''list index out of range'')),
            s1, [ListNamespaces (list_filters (p_type p))])"
proof -
  have "try_absent c p s =
          (Inl (IndexError ''list index out of range''), s1,
           [ListNamespaces (list_filters (p_type p))])"
    by (simp add: try_absent_def io_bind_def lookup_by_name [OF assms(3,4,5)] io_lift_def
          first_of_def bind_e_simps assms(6))
  then show ?thesis using assms(2) by (simp add: main_def assms(1) fail_msg_def)
qed

theorem absent_no_match_fails_witness:
  "main (remote_client ''SUCCESS'') example_str (\<lambda>d. d)
     (args_private\<lparr>a_state := Some ''absent''\<rparr>) empty_remote =
   (FailJson (''Exception '' @ [CHR 0x27] @ ''my-namespace'' @ [CHR 0x27] @ '': ''
              @ ''list index out of range''),
    empty_remote, [ListNamespaces private_filters])"
proof -
  let ?c = "remote_client ''SUCCESS''"
  let ?p = "params_private\<lparr>p_state := ''absent''\<rparr>"
  have h2: "p_state ?p = ''absent''" by simp
  have h3: "sd_list_namespaces ?c (list_filters (p_type ?p)) empty_remote =
     (Inr [(''Namespaces'', PList (map PDict (of_type ''DNS_PRIVATE'' (namespaces empty_remote))))],
      empty_remote)"
    using list_private [of "''SUCCESS''" empty_remote] by (simp add: params_private_def)
  have h5: "\<forall>d\<in>set (of_type ''DNS_PRIVATE'' (namespaces empty_remote)). map_of d ''Name'' \<noteq> None"
    by (simp add: of_type_def empty_remote_def)
  have h6: "named (p_name ?p) (of_type ''DNS_PRIVATE'' (namespaces empty_remote)) = []"
    by (simp add: named_def of_type_def empty_remote_def)
  from absent_no_match_fails [OF args_absent_ok h2 h3 listed_private h5 h6,
      where str = example_str and snake = "\<lambda>d. d"]
  show ?thesis by (simp add: params_private_def filters_private)
qed

text \<open>
  C7. A create with wait=true whose operation has the status SUCCESS at none of the
  attempts of the waiter (delay 5, at most 10 attempts) ends in \<open>fail_json\<close>, never in
  a success, and the failure is one message made of the name of the namespace and the
  text of the exception the wait ended in: an exception of a poll of the operation, or
  the error of the waiter itself. The calls of the run are the listing, the create call
  and the polls of the waiter; the namespace is never fetched.
\<close>

theorem poll_exhaustion_fails:
  assumes "AnsibleAWSModule a = Inr p" and "p_state p = ''present''"
    and "sd_list_namespaces c (list_filters (p_type p)) s = (Inr resp, s1)"
    and "map_of resp ''Namespaces'' = Some (PList (map PDict nss))"
    and "\<forall>d\<in>set nss. map_of d ''Name'' \<noteq> None"
    and "named (p_name p) nss = []"
    and "create_api c p s1 = (Inr cresp, s2)"
    and "map_of cresp ''OperationId'' = Some operation"
    and "p_wait p"
    and "never_success c operation waiter_maxAttempts s2"
  shows "waiter_maxAttempts = 10 \<and> waiter_delay = 5 \<and>
         (\<exists>e s3 polls.
            waiter_wait c operation waiter_maxAttempts s2 = (Inl e, s3, polls) \<and>
            ((\<exists>m. e = WaiterError m) \<or> (\<exists>s'. fst (sd_get_operation c operation s') = Inl e)) \<and>
            main c str snake a s =
              (FailJson (''Exception '' @ [CHR 0x27] @ p_name p @ [CHR 0x27] @ '': '' @ str_exn e),
               s3, ListNamespaces (list_filters (p_type p)) # create_call p # polls))"
proof -
  have ty: "p_type p = Some ''DNS_PRIVATE'' \<or> p_type p = Some ''DNS_PUBLIC''"
    by (rule present_type [OF assms(1,2)])
  have look: "get_namespaces_by_name c (p_name p) (p_type p) s =
                (Inr (Some []), s1, [ListNamespaces (list_filters (p_type p))])"
    using lookup_by_name [OF assms(3,4,5), of "p_name p"] by (simp add: assms(6))
  from waiter_gives_up [OF assms(10)] obtain e s3 cs
    where w: "waiter_wait c operation waiter_maxAttempts s2 = (Inl e, s3, cs)" by blast
  note origin = waiter_exception [OF w]
  have "create_namespace c str (p_name p) (p_type p) (p_description p)
           (p_creator_request_id p) (p_vpc_id p) (p_wait p) s1 = (Inl e, s3, create_call p # cs)"
    unfolding create_namespace_eq [OF ty]
    using assms(9)
    by (simp add: io_bind_def sd_call_def assms(7,8) io_lift_def wait_created_def w)
  then have "main c str snake a s =
          (FailJson (fail_msg (p_name p) e), s3,
           ListNamespaces (list_filters (p_type p)) # create_call p # cs)"
    by (simp add: main_def assms(1,2) try_present_def io_bind_def look io_lift_def py_len_def)
  then have "main c str snake a s =
          (FailJson (''Exception '' @ [CHR 0x27] @ p_name p @ [CHR 0x27] @ '': '' @ str_exn e), s3,
           ListNamespaces (list_filters (p_type p)) # create_call p # cs)"
    by (simp add: fail_msg_def)
  with w origin have "\<exists>e s3 polls.
            waiter_wait c operation waiter_maxAttempts s2 = (Inl e, s3, polls) \<and>
            ((\<exists>m. e = WaiterError m) \<or> (\<exists>s'. fst (sd_get_operation c operation s') = Inl e)) \<and>
            main c str snake a s =
              (FailJson (''Exception '' @ [CHR 0x27] @ p_name p @ [CHR 0x27] @ '': '' @ str_exn e),
               s3, ListNamespaces (list_filters (p_type p)) # create_call p # polls)"
    by blast
  then show ?thesis by (simp add: waiter_maxAttempts_def waiter_delay_def)
qed

theorem poll_exhaustion_fails_witness:
  "\<exists>e s3 polls.
     waiter_wait (remote_client ''PENDING'') (PStr (''op-'' @ fresh_id (namespaces empty_remote)))
       waiter_maxAttempts
       (empty_remote\<lparr> operations :=
          (PStr (''op-'' @ fresh_id (namespaces empty_remote)),
           PStr (fresh_id (namespaces empty_remote))) # operations empty_remote \<rparr>) =
       (Inl e, s3, polls) \<and>
     ((\<exists>m. e = WaiterError m) \<or>
      (\<exists>s'. fst (sd_get_operation (remote_client ''PENDING'')
                    (PStr (''op-'' @ fresh_id (namespaces empty_remote))) s') = Inl e)) \<and>
     main (remote_client ''PENDING'') example_str (\<lambda>d. d) args_private empty_remote =
      (FailJson (''Exception '' @ [CHR 0x27] @ ''my-namespace'' @ [CHR 0x27] @ '': '' @ str_exn e),
       s3,
       ListNamespaces private_filters
         # CreatePrivateDnsNamespace [(''Name'', PStr ''my-namespace''), (''Vpc'', PStr ''vpc-123'')]
         # polls)"
proof -
  let ?c = "remote_client ''PENDING''"
  let ?op = "PStr (''op-'' @ fresh_id (namespaces empty_remote))"
  let ?s2 = "empty_remote\<lparr> operations :=
               (?op, PStr (fresh_id (namespaces empty_remote))) # operations empty_remote \<rparr>"
  have h2: "p_state params_private = ''present''" by (simp add: params_private_def)
  have h5: "\<forall>d\<in>set (of_type ''DNS_PRIVATE'' (namespaces empty_remote)). map_of d ''Name'' \<noteq> None"
    by (simp add: of_type_def empty_remote_def)
  have h6: "named (p_name params_private) (of_type ''DNS_PRIVATE'' (namespaces empty_remote)) = []"
    by (simp add: named_def of_type_def empty_remote_def)
  have h7: "create_api ?c params_private empty_remote = (Inr [(''OperationId'', ?op)], ?s2)"
    using remote_create_pending [of params_private empty_remote]
    by (simp add: params_private_def)
  have h8: "map_of [(''OperationId'', ?op)] ''OperationId'' = Some ?op" by simp
  have h9: "p_wait params_private" by (simp add: params_private_def)
  have h10: "never_success ?c ?op waiter_maxAttempts ?s2"
    by (simp add: waiter_maxAttempts_def numeral_eq_Suc remote_client_def remote_operation_def
          acceptor_success_def path_get_def)
  have cc: "create_call params_private =
              CreatePrivateDnsNamespace [(''Name'', PStr ''my-namespace''), (''Vpc'', PStr ''vpc-123'')]"
    by (simp add: create_call_def params_private_def private_params_def optional_params_def)
  have nm: "p_name params_private = ''my-namespace''" by (simp add: params_private_def)
  have fl: "list_filters (p_type params_private) = private_filters"
    by (simp add: params_private_def filters_private)
  from poll_exhaustion_fails [OF args_private_ok h2 list_private listed_private h5 h6 h7 h8 h9 h10,
      where str = example_str and snake = "\<lambda>d. d"]
  show ?thesis unfolding cc nm fl by blast
qed

text \<open>
  C8. Idempotence. On the stateful model of the remote, where a successful create adds a
  namespace of the name and type, two runs of the same valid present-state invocation,
  the second on the remote the first leaves behind, report changed=true and then
  changed=false, and the second run issues no create call.
\<close>

theorem present_twice:
  assumes "AnsibleAWSModule a = Inr p" and "p_state p = ''present''"
    and "p_type p = Some t" and "no_match (p_name p) t s" and "all_named s"
  shows "\<exists>out1 s1 cs1 out2 s2 cs2.
           main (remote_client ''SUCCESS'') str snake a s = (ExitJson out1, s1, cs1) \<and>
           map_of out1 ''changed'' = Some (PBool True) \<and>
           main (remote_client ''SUCCESS'') str snake a s1 = (ExitJson out2, s2, cs2) \<and>
           map_of out2 ''changed'' = Some (PBool False) \<and>
           filter is_create cs2 = []"
proof -
  from model_first_run [OF assms, of str snake] obtain out cs where
    r1: "main (remote_client ''SUCCESS'') str snake a s =
           (ExitJson [(''changed'', PBool True), (''namespace'', PDict (snake out))],
            after_create (p_name p) t s, cs)" by blast
  note r2 = model_second_run [OF assms, of str snake]
  have "main (remote_client ''SUCCESS'') str snake a s =
          (ExitJson [(''changed'', PBool True), (''namespace'', PDict (snake out))],
           after_create (p_name p) t s, cs) \<and>
        map_of [(''changed'', PBool True), (''namespace'', PDict (snake out))] ''changed'' =
          Some (PBool True) \<and>
        main (remote_client ''SUCCESS'') str snake a (after_create (p_name p) t s) =
          (ExitJson [(''changed'', PBool False),
                     (''namespace'', PDict (snake (created_ns (p_name p) t s)))],
           after_create (p_name p) t s,
           [ListNamespaces (list_filters (p_type p)), GetNamespace (PStr (fresh_id (namespaces s)))]) \<and>
        map_of [(''changed'', PBool False),
                (''namespace'', PDict (snake (created_ns (p_name p) t s)))] ''changed'' =
          Some (PBool False) \<and>
        filter is_create
          [ListNamespaces (list_filters (p_type p)), GetNamespace (PStr (fresh_id (namespaces s)))] = []"
    by (simp add: r1 r2)
  then show ?thesis by blast
qed

theorem present_twice_witness:
  "\<exists>out1 s1 cs1 out2 s2 cs2.
     main (remote_client ''SUCCESS'') example_str (\<lambda>d. d) args_private empty_remote =
       (ExitJson out1, s1, cs1) \<and>
     map_of out1 ''changed'' = Some (PBool True) \<and>
     main (remote_client ''SUCCESS'') example_str (\<lambda>d. d) args_private s1 = (ExitJson out2, s2, cs2) \<and>
     map_of out2 ''changed'' = Some (PBool False) \<and>
     filter is_create cs2 = []"
proof -
  have h2: "p_state params_private = ''present''" by (simp add: params_private_def)
  have h3: "p_type params_private = Some ''DNS_PRIVATE''" by (simp add: params_private_def)
  have h4: "no_match (p_name params_private) ''DNS_PRIVATE'' empty_remote"
    by (simp add: no_match_def empty_remote_def)
  have h5: "all_named empty_remote" by (simp add: all_named_def empty_remote_def)
  from present_twice [OF args_private_ok h2 h3 h4 h5] show ?thesis .
qed

text \<open>
  C9. The normalization is to convert the datetime-typed timestamps of a fetched
  namespace to strings. \<open>jsonize\<close> converts the fields it knows by name
  (\<open>createdAt\<close>, and \<open>createdAt\<close> and \<open>updatedAt\<close> under \<open>deployments\<close> and
  \<open>events\<close>); the creation timestamp of a namespace is its field \<open>CreateDate\<close>, which
  \<open>jsonize\<close> leaves a datetime, and the run below returns it so.
\<close>

theorem create_date_not_converted:
  "jsonize str (PDict my_namespace) = Inr (PDict my_namespace) \<and>
   map_of my_namespace ''CreateDate'' = Some (PDatetime ''2019-01-01 00:00:00'') \<and>
   main (remote_client ''SUCCESS'') str snake args_private one_remote =
     (ExitJson [(''changed'', PBool False), (''namespace'', PDict (snake my_namespace))],
      one_remote, [ListNamespaces private_filters, GetNamespace (PStr ''ns-1'')])"
  by (simp add: check_defs run_defs model_defs)

text \<open>
  C10. A present-state invocation for which the remote lists two or more namespaces of
  the name and type takes neither the changed=false path nor the creation path: the
  only call of the run is the listing, so no create and no delete call is issued, and
  the run ends in the exception that \<open>exit_json\<close> raises on the list.
\<close>

theorem many_matches_no_change:
  assumes "AnsibleAWSModule a = Inr p" and "p_state p = ''present''"
    and "sd_list_namespaces c (list_filters (p_type p)) s = (Inr resp, s1)"
    and "map_of resp ''Namespaces'' = Some (PList (map PDict nss))"
    and "\<forall>d\<in>set nss. map_of d ''Name'' \<noteq> None"
    and "2 \<le> length (named (p_name p) nss)"
  shows "\<exists>e cs. main c str snake a s = (Uncaught e, s1, cs) \<and>
           cs = [ListNamespaces (list_filters (p_type p))] \<and>
           filter is_create cs = [] \<and> filter is_delete cs = []"
proof -
  have "try_present c str snake p s = (Inr None, s1, [ListNamespaces (list_filters (p_type p))])"
    using assms(6)
    by (auto simp: try_present_def io_bind_def lookup_by_name [OF assms(3,4,5)] io_lift_def
          py_len_def io_return_def)
  then show ?thesis by (simp add: main_def assms(1,2))
qed

theorem many_matches_no_change_witness:
  "\<exists>e cs. main (remote_client ''SUCCESS'') example_str (\<lambda>d. d) args_private two_remote =
      (Uncaught e, two_remote, cs) \<and>
     cs = [ListNamespaces private_filters] \<and>
     filter is_create cs = [] \<and> filter is_delete cs = []"
proof -
  have h2: "p_state params_private = ''present''" by (simp add: params_private_def)
  have h5: "\<forall>d\<in>set (of_type ''DNS_PRIVATE'' (namespaces two_remote)). map_of d ''Name'' \<noteq> None"
    by (simp add: of_type_def two_remote_def my_namespace_def)
  have h6: "2 \<le> length (named (p_name params_private) (of_type ''DNS_PRIVATE'' (namespaces two_remote)))"
    by (simp add: named_def of_type_def two_remote_def my_namespace_def params_private_def)
  from many_matches_no_change [OF args_private_ok h2 list_private listed_private h5 h6,
      where str = example_str and snake = "\<lambda>d. d"]
  show ?thesis by (simp add: params_private_def filters_private)
qed

end
